theory Spec2Isabelle
  imports Main "HOL-Library.Word"
begin

unbundle bit_operations_syntax

section \<open>Values of the Go program\<close>

text \<open>The source is the darwin file of the package: \<open>uintptr\<close> and \<open>uint\<close> have 64 bits.\<close>

type_synonym byte = "8 word"
type_synonym uintptr = "64 word"
type_synonym uint = "64 word"

text \<open>
  A Go \<open>error\<close> is either a \<open>syscall.Errno\<close> (the status of a system call) or a value
  made by \<open>errors.New\<close>. Errors handed back by package \<open>os\<close> (from \<open>Read\<close>, \<open>Write\<close>,
  \<open>Close\<close>, \<open>OpenFile\<close>) are opaque to this package: they are represented by
  \<open>ErrorString\<close> of their text. A nil error is \<open>None\<close> of \<open>error option\<close>.
\<close>

datatype error = Errno uintptr | ErrorString string

text \<open>
  \<open>err.Error()\<close>. The table of messages behind \<open>syscall.Errno.Error\<close> belongs to the Go
  runtime and is a parameter.
\<close>

fun Error :: "(uintptr \<Rightarrow> string) \<Rightarrow> error \<Rightarrow> string" where
  "Error strerror (Errno e) = strerror e"
| "Error strerror (ErrorString s) = s"

text \<open>A call either returns or panics (a Go run-time error).\<close>

datatype 'a outcome = Panic | Return 'a

text \<open>
  \<open>*os.File\<close>: \<open>None\<close> is the nil pointer. \<open>Fd\<close> of a nil file is the all-ones
  descriptor, as in package \<open>os\<close>.
\<close>

datatype os_file = File (fd_of: uintptr)

definition Fd :: "os_file option \<Rightarrow> uintptr" where
  "Fd file = (case file of None \<Rightarrow> - 1 | Some f \<Rightarrow> fd_of f)"

text \<open>The \<open>winsize\<close> struct of the source.\<close>

record winsize =
  ws_row :: "16 word"
  ws_col :: "16 word"
  ws_xpixel :: "16 word"
  ws_ypixel :: "16 word"

text \<open>
  Modelled from the spec: the declaration of the \<open>Termios\<close> struct is not in the source
  file. The spec names its fields: input, output, control and local flags, the table of
  control characters, input and output speed; the source also uses its window-size
  field \<open>Wz\<close>. Flag and speed words are taken as 32 bits wide.
\<close>

record Termios =
  Iflag :: "32 word"
  Oflag :: "32 word"
  Cflag :: "32 word"
  Lflag :: "32 word"
  Cc :: "byte list"
  Ispeed :: "32 word"
  Ospeed :: "32 word"
  Wz :: winsize

text \<open>The zero value of \<open>var t Termios\<close>.\<close>

definition Termios_zero :: Termios where
  "Termios_zero = \<lparr>Iflag = 0, Oflag = 0, Cflag = 0, Lflag = 0, Cc = [],
     Ispeed = 0, Ospeed = 0,
     Wz = \<lparr>ws_row = 0, ws_col = 0, ws_xpixel = 0, ws_ypixel = 0\<rparr>\<rparr>"

section \<open>Constants of the source\<close>

definition TCGETS :: uintptr where "TCGETS = 0x5401"
definition TCSETS :: uintptr where "TCSETS = 0x5402"
definition TIOCGPTN :: uintptr where "TIOCGPTN = 0x80045430"

text \<open>\<open>CBAUD = 0o010017\<close> and \<open>CBAUDEX = 0o010000\<close>, octal in the source.\<close>

definition CBAUD :: "32 word" where "CBAUD = 4111"
definition CBAUDEX :: "32 word" where "CBAUDEX = 4096"

definition IOC_PARAM_SHIFT :: nat where "IOC_PARAM_SHIFT = 13"
definition IOC_PARAM_MASK :: uintptr where "IOC_PARAM_MASK = push_bit IOC_PARAM_SHIFT 1 - 1"

definition IOC_PARM_LEN :: "uintptr \<Rightarrow> uintptr" where
  "IOC_PARM_LEN ioctl = drop_bit 16 ioctl AND IOC_PARAM_MASK"

text \<open>
  Requests of package \<open>syscall\<close> (darwin) that the source names:
  \<open>TIOCPTYGNAME = _IOC(IOC_OUT, 't', 83, 128)\<close>, \<open>TIOCPTYGRANT = _IO('t', 84)\<close>,
  \<open>TIOCPTYUNLK = _IO('t', 82)\<close>.
\<close>

definition TIOCPTYGNAME :: uintptr where "TIOCPTYGNAME = 0x40807453"
definition TIOCPTYGRANT :: uintptr where "TIOCPTYGRANT = 0x20007454"
definition TIOCPTYUNLK :: uintptr where "TIOCPTYUNLK = 0x20007452"

definition EBADF :: uintptr where "EBADF = 9"

section \<open>The operating system\<close>

text \<open>
  The kernel is the state every call threads through. It holds what the devices
  answer (attributes, PTY number and name per descriptor, what opening a path gives),
  the outcomes of the system calls still to come (the status of each next \<open>ioctl\<close>, the
  result of each next read, write and close, oldest first; an empty queue means success,
  and end of input for reads), and the trace of the calls made so far with their
  outcomes.
\<close>

datatype event =
    EvIoctl uintptr uintptr uintptr
  | EvOpen string "error + uintptr"
  | EvClose uintptr "error option"
  | EvRead uintptr "error + byte"
  | EvWrite uintptr string "error option"

record world =
  k_termios :: "uintptr \<Rightarrow> Termios"
  k_ptn :: "uintptr \<Rightarrow> 32 word"
  k_gname :: "uintptr \<Rightarrow> byte list"
  k_open :: "string \<Rightarrow> error + uintptr"
  k_ioctl_errs :: "uintptr list"
  k_input :: "(error + byte) list"
  k_write_errs :: "error option list"
  k_close_errs :: "error option list"
  k_trace :: "event list"

definition emit :: "event \<Rightarrow> world \<Rightarrow> world" where
  "emit ev w = w\<lparr>k_trace := k_trace w @ [ev]\<rparr>"

text \<open>
  \<open>syscall.Syscall(SYS_IOCTL, fd, cmd, ptr)\<close>, status only: the invalid descriptor of a
  nil file is refused with \<open>EBADF\<close>; otherwise the status is the next one queued.
\<close>

definition Syscall_IOCTL :: "world \<Rightarrow> uintptr \<Rightarrow> uintptr \<Rightarrow> uintptr \<times> world" where
  "Syscall_IOCTL w fd cmd =
     (if fd = - 1 then (EBADF, emit (EvIoctl fd cmd EBADF) w)
      else case k_ioctl_errs w of
             [] \<Rightarrow> (0, emit (EvIoctl fd cmd 0) w)
           | e # es \<Rightarrow> (e, emit (EvIoctl fd cmd e) (w\<lparr>k_ioctl_errs := es\<rparr>)))"

text \<open>The requests with the memory they are handed: written only when the call succeeds.\<close>

definition ioctl_TCGETS :: "world \<Rightarrow> uintptr \<Rightarrow> Termios \<Rightarrow> uintptr \<times> Termios \<times> world" where
  "ioctl_TCGETS w fd t =
     (case Syscall_IOCTL w fd TCGETS of
        (errno, w') \<Rightarrow> (errno, if errno = 0 then k_termios w' fd else t, w'))"

definition ioctl_TCSETS :: "world \<Rightarrow> uintptr \<Rightarrow> Termios \<Rightarrow> uintptr \<times> world" where
  "ioctl_TCSETS w fd t =
     (case Syscall_IOCTL w fd TCSETS of
        (errno, w') \<Rightarrow>
          (errno, if errno = 0 then w'\<lparr>k_termios := (k_termios w')(fd := t)\<rparr> else w'))"

section \<open>Terminal attributes\<close>

text \<open>\<open>func (t *Termios) Set(file *os.File) error\<close>\<close>

definition Termios_Set :: "world \<Rightarrow> Termios \<Rightarrow> os_file option \<Rightarrow> error option \<times> world" where
  "Termios_Set w t file =
     (let fd = Fd file in
      case ioctl_TCSETS w fd t of
        (errno, w') \<Rightarrow> if errno \<noteq> 0 then (Some (Errno errno), w') else (None, w'))"

text \<open>\<open>func Attr(file *os.File) (Termios, error)\<close>\<close>

definition Attr :: "world \<Rightarrow> os_file option \<Rightarrow> (Termios \<times> error option) \<times> world" where
  "Attr w file =
     (let t = Termios_zero; fd = Fd file in
      case ioctl_TCGETS w fd t of
        (errno, t1, w') \<Rightarrow>
          if errno \<noteq> 0 then ((t1, Some (Errno errno)), w')
          else
            let t2 = t1\<lparr>Ispeed := Ispeed t1 AND (CBAUD OR CBAUDEX)\<rparr>;
                t3 = t2\<lparr>Ospeed := Ospeed t2 AND (CBAUD OR CBAUDEX)\<rparr>
            in ((t3, None), w'))"

text \<open>\<open>func Isatty(file *os.File) bool\<close>\<close>

definition Isatty :: "world \<Rightarrow> os_file option \<Rightarrow> bool \<times> world" where
  "Isatty w file = (case Attr w file of ((_, err), w') \<Rightarrow> (err = None, w'))"

section \<open>Files\<close>

definition ErrInvalid :: error where "ErrInvalid = ErrorString ''invalid argument''"
definition EOF :: error where "EOF = ErrorString ''EOF''"

text \<open>
  \<open>f.Read(b)\<close> for the one-byte buffer \<open>b\<close> of the source: the next queued result. A
  failed read leaves \<open>b\<close> as it was; the end of the input is the error \<open>io.EOF\<close>.
\<close>

definition File_Read :: "world \<Rightarrow> os_file option \<Rightarrow> byte \<Rightarrow> error option \<times> byte \<times> world" where
  "File_Read w file b =
     (case file of
        None \<Rightarrow> (Some ErrInvalid, b, w)
      | Some f \<Rightarrow>
          (case k_input w of
             [] \<Rightarrow> (Some EOF, b, emit (EvRead (fd_of f) (Inl EOF)) w)
           | Inl e # rest \<Rightarrow> (Some e, b, emit (EvRead (fd_of f) (Inl e)) (w\<lparr>k_input := rest\<rparr>))
           | Inr c # rest \<Rightarrow> (None, c, emit (EvRead (fd_of f) (Inr c)) (w\<lparr>k_input := rest\<rparr>))))"

text \<open>\<open>f.Write(data)\<close>, the error only.\<close>

definition File_Write :: "world \<Rightarrow> os_file option \<Rightarrow> string \<Rightarrow> error option \<times> world" where
  "File_Write w file data =
     (case file of
        None \<Rightarrow> (Some ErrInvalid, w)
      | Some f \<Rightarrow>
          (case k_write_errs w of
             [] \<Rightarrow> (None, emit (EvWrite (fd_of f) data None) w)
           | r # rs \<Rightarrow> (r, emit (EvWrite (fd_of f) data r) (w\<lparr>k_write_errs := rs\<rparr>))))"

text \<open>\<open>f.Close()\<close>\<close>

definition File_Close :: "world \<Rightarrow> os_file option \<Rightarrow> error option \<times> world" where
  "File_Close w file =
     (case file of
        None \<Rightarrow> (Some ErrInvalid, w)
      | Some f \<Rightarrow>
          (case k_close_errs w of
             [] \<Rightarrow> (None, emit (EvClose (fd_of f) None) w)
           | r # rs \<Rightarrow> (r, emit (EvClose (fd_of f) r) (w\<lparr>k_close_errs := rs\<rparr>))))"

text \<open>\<open>os.OpenFile(name, os.O_RDWR, 0)\<close>\<close>

definition OpenFile :: "world \<Rightarrow> string \<Rightarrow> (os_file option \<times> error option) \<times> world" where
  "OpenFile w name =
     (case k_open w name of
        Inl e \<Rightarrow> ((None, Some e), emit (EvOpen name (Inl e)) w)
      | Inr fd \<Rightarrow> ((Some (File fd), None), emit (EvOpen name (Inr fd)) w))"

section \<open>The secure prompt reader\<close>

text \<open>\<open>func clearbuf(b []byte)\<close>, on the elements of the slice.\<close>

fun clearbuf :: "byte list \<Rightarrow> byte list" where
  "clearbuf [] = []"
| "clearbuf (x # xs) = 0 # clearbuf xs"

text \<open>
  A slice \<open>pbuf\<close> is its backing array from the slice's start up to its capacity (a
  list, so \<open>cap(pbuf)\<close> is its length) and its length \<open>n = len(pbuf)\<close>. The slice
  expression \<open>pbuf[:k]\<close> panics when \<open>k\<close> exceeds the capacity.
\<close>

definition slice_to :: "byte list \<Rightarrow> nat \<Rightarrow> byte list option" where
  "slice_to pbuf k = (if k \<le> length pbuf then Some (take k pbuf) else None)"

text \<open>\<open>clearbuf(pbuf[:k])\<close>: the slice shares the array, which is returned updated.\<close>

definition clear_prefix :: "byte list \<Rightarrow> nat \<Rightarrow> byte list option" where
  "clear_prefix pbuf k =
     (case slice_to pbuf k of
        None \<Rightarrow> None
      | Some s \<Rightarrow> Some (clearbuf s @ drop (length s) pbuf))"

text \<open>
  The read of one iteration with its error branch (lines 106 to 109): gives \<open>b[0]\<close> and
  the array, or \<open>None\<close> for a panic.
\<close>

definition GetPass_read ::
  "world \<Rightarrow> os_file option \<Rightarrow> byte list \<Rightarrow> byte \<Rightarrow> nat \<Rightarrow> (byte \<times> byte list) option \<times> world" where
  "GetPass_read w f pbuf b i =
     (case File_Read w f b of
        (err, b1, w1) \<Rightarrow>
          if err \<noteq> None then
            (case clear_prefix pbuf (i + 1) of
               None \<Rightarrow> (None, w1)
             | Some pbuf1 \<Rightarrow> (Some (0, pbuf1), w1))
          else (Some (b1, pbuf), w1))"

text \<open>
  The loop \<open>for ; i < len(pbuf); i++\<close> and what follows it. The result is the pair the
  source returns (a nil slice is \<open>None\<close>), the array afterwards, and the world.
\<close>

type_synonym getpass_result = "(byte list option \<times> error option) outcome \<times> byte list \<times> world"

function GetPass_loop ::
  "world \<Rightarrow> os_file option \<Rightarrow> byte list \<Rightarrow> nat \<Rightarrow> byte \<Rightarrow> nat \<Rightarrow> getpass_result" where
  "GetPass_loop w f pbuf n b i =
     (if i < n then
        (case GetPass_read w f pbuf b i of
           (None, w1) \<Rightarrow> (Panic, pbuf, w1)
         | (Some (b1, pbuf1), w1) \<Rightarrow>
             if b1 = 10 \<or> b1 = 13 then (Return (Some (take i pbuf1), None), pbuf1, w1)
             else GetPass_loop w1 f (pbuf1[i := b1]) n 0 (i + 1))
      else
        (case clear_prefix pbuf (i + 1) of
           None \<Rightarrow> (Panic, pbuf, w)
         | Some pbuf1 \<Rightarrow> (Return (None, Some (ErrorString ''ran out of bufferspace'')), pbuf1, w)))"
  by pat_completeness auto
termination
  by (relation "measure (\<lambda>(w, f, pbuf, n, b, i). n - i)") auto

declare GetPass_loop.simps [simp del]

text \<open>
  \<open>GetPass\<close> after \<open>defer t.Set(f)\<close>: echo off, the prompt, the loop. \<open>ECHO\<close> is a constant
  of the package declared outside the source file: a parameter.
\<close>

definition GetPass_body ::
  "32 word \<Rightarrow> world \<Rightarrow> string \<Rightarrow> os_file option \<Rightarrow> byte list \<Rightarrow> nat \<Rightarrow> Termios \<Rightarrow> getpass_result" where
  "GetPass_body ECHO w prompt f pbuf n t =
     (let noecho = t;
          noecho = noecho\<lparr>Lflag := Lflag noecho AND NOT ECHO\<rparr>
      in case Termios_Set w noecho f of
           (Some err, w1) \<Rightarrow> (Return (None, Some err), pbuf, w1)
         | (None, w1) \<Rightarrow>
             (case File_Write w1 f prompt of
                (Some err, w2) \<Rightarrow> (Return (None, Some err), pbuf, w2)
              | (None, w2) \<Rightarrow> GetPass_loop w2 f pbuf n 0 0))"

text \<open>
  \<open>func GetPass(prompt string, f *os.File, pbuf []byte) ([]byte, error)\<close>. The deferred
  \<open>t.Set(f)\<close> runs on every way out of the body, a panic included, and its result is
  dropped.
\<close>

definition GetPass ::
  "32 word \<Rightarrow> world \<Rightarrow> string \<Rightarrow> os_file option \<Rightarrow> byte list \<Rightarrow> nat \<Rightarrow> getpass_result" where
  "GetPass ECHO w prompt f pbuf n =
     (case Attr w f of
        ((t, Some err), w1) \<Rightarrow> (Return (None, Some err), pbuf, w1)
      | ((t, None), w1) \<Rightarrow>
          (case GetPass_body ECHO w1 prompt f pbuf n t of
             (r, pbuf1, w2) \<Rightarrow> (r, pbuf1, snd (Termios_Set w2 t f))))"

section \<open>The PTY allocator\<close>

record PTY =
  Master :: "os_file option"
  Slave :: "os_file option"

text \<open>
  The kernel copies the bytes \<open>g\<close> over the start of the memory \<open>mem\<close>, as far as
  \<open>mem\<close> reaches.
\<close>

definition copyout :: "byte list \<Rightarrow> byte list \<Rightarrow> byte list" where
  "copyout mem g = take (length mem) (g @ drop (length g) mem)"

text \<open>
  What a successful request writes to the memory it is handed: the name request copies
  the device name out; the other requests used through \<open>ioctl\<close> write nothing.
\<close>

definition ioctl_mem :: "world \<Rightarrow> uintptr \<Rightarrow> uintptr \<Rightarrow> byte list \<Rightarrow> byte list" where
  "ioctl_mem w fd cmd mem = (if cmd = TIOCPTYGNAME then copyout mem (k_gname w fd) else mem)"

text \<open>\<open>func ioctl(fd, cmd, ptr uintptr) error\<close>, with the memory behind \<open>ptr\<close>.\<close>

definition ioctl :: "world \<Rightarrow> uintptr \<Rightarrow> uintptr \<Rightarrow> byte list \<Rightarrow> error option \<times> byte list \<times> world" where
  "ioctl w fd cmd mem =
     (case Syscall_IOCTL w fd cmd of
        (e, w') \<Rightarrow>
          if e \<noteq> 0 then (Some (Errno e), mem, w')
          else (None, ioctl_mem w' fd cmd mem, w'))"

definition grantpt :: "world \<Rightarrow> os_file option \<Rightarrow> error option \<times> world" where
  "grantpt w f = (case ioctl w (Fd f) TIOCPTYGRANT [] of (err, _, w') \<Rightarrow> (err, w'))"

definition unlockpt :: "world \<Rightarrow> os_file option \<Rightarrow> error option \<times> world" where
  "unlockpt w f = (case ioctl w (Fd f) TIOCPTYUNLK [] of (err, _, w') \<Rightarrow> (err, w'))"

text \<open>The loop of \<open>ptsname\<close>: the index of the first NUL byte.\<close>

fun nul_index :: "byte list \<Rightarrow> nat option" where
  "nul_index [] = None"
| "nul_index (c # cs) = (if c = 0 then Some 0 else map_option Suc (nul_index cs))"

text \<open>\<open>string(bytes)\<close>\<close>

definition string_of_bytes :: "byte list \<Rightarrow> string" where
  "string_of_bytes bs = map (\<lambda>c. char_of (unat c)) bs"

text \<open>
  \<open>func ptsname(f *os.File) (string, error)\<close>. The buffer has
  \<open>_IOC_PARM_LEN(TIOCPTYGNAME)\<close> bytes, which is 128, so \<open>n[0]\<close> exists.
\<close>

definition ptsname :: "world \<Rightarrow> os_file option \<Rightarrow> (string \<times> error option) \<times> world" where
  "ptsname w f =
     (let n = replicate (unat (IOC_PARM_LEN TIOCPTYGNAME)) (0 :: byte)
      in case ioctl w (Fd f) TIOCPTYGNAME n of
           (Some err, _, w') \<Rightarrow> (('''', Some err), w')
         | (None, n1, w') \<Rightarrow>
             (case nul_index n1 of
                Some i \<Rightarrow> ((string_of_bytes (take i n1), None), w')
              | None \<Rightarrow>
                  (('''', Some (ErrorString ''TIOCPTYGNAME string not NUL-terminated'')), w')))"

text \<open>\<open>func OpenPTY() (*PTY, error)\<close>\<close>

definition OpenPTY :: "world \<Rightarrow> (PTY option \<times> error option) \<times> world" where
  "OpenPTY w =
     (case OpenFile w ''/dev/ptmx'' of
        ((_, Some err), w1) \<Rightarrow> ((None, Some err), w1)
      | ((p, None), w1) \<Rightarrow>
     (case ptsname w1 p of
        ((_, Some err), w2) \<Rightarrow> ((None, Some err), w2)
      | ((sname, None), w2) \<Rightarrow>
     (case grantpt w2 p of
        (Some err, w3) \<Rightarrow> ((None, Some err), w3)
      | (None, w3) \<Rightarrow>
     (case unlockpt w3 p of
        (Some err, w4) \<Rightarrow> ((None, Some err), w4)
      | (None, w4) \<Rightarrow>
     (case OpenFile w4 sname of
        ((_, Some err), w5) \<Rightarrow> ((None, Some err), w5)
      | ((t, None), w5) \<Rightarrow> ((Some \<lparr>Master = p, Slave = t\<rparr>, None), w5))))))"

text \<open>\<open>strings.Join(elems, sep)\<close>\<close>

fun Join :: "string list \<Rightarrow> string \<Rightarrow> string" where
  "Join [] sep = []"
| "Join [x] sep = x"
| "Join (x # y # ys) sep = x @ sep @ Join (y # ys) sep"

text \<open>\<open>func (p *PTY) Close() error\<close>; a nil \<open>p\<close> is \<open>None\<close>.\<close>

definition PTY_Close :: "(uintptr \<Rightarrow> string) \<Rightarrow> world \<Rightarrow> PTY option \<Rightarrow> error option \<times> world" where
  "PTY_Close strerror w p =
     (let slaveErr = Some (ErrorString ''Slave FD nil'')
      in case p of
           None \<Rightarrow> (Some (ErrorString ''no PTY''), w)
         | Some pty \<Rightarrow>
             (case (if Slave pty \<noteq> None then File_Close w (Slave pty) else (slaveErr, w)) of
                (slaveErr, w1) \<Rightarrow>
             (let masterErr = Some (ErrorString ''Master FD nil'')
              in case (if Master pty \<noteq> None then File_Close w1 (Master pty) else (masterErr, w1)) of
                (masterErr, w2) \<Rightarrow>
                  if slaveErr \<noteq> None \<or> masterErr \<noteq> None then
                    (let errs = [];
                         errs = (case slaveErr of
                                   Some e \<Rightarrow> errs @ [''Slave: '' @ Error strerror e]
                                 | None \<Rightarrow> errs);
                         errs = (case masterErr of
                                   Some e \<Rightarrow> errs @ [''Master: '' @ Error strerror e]
                                 | None \<Rightarrow> errs)
                     in (Some (ErrorString (Join errs '' '')), w2))
                  else (None, w2))))"

text \<open>
  The number request writes the four bytes its code declares (\<open>0x80045430\<close> carries the
  parameter length 4) over the low half of the \<open>uint\<close> variable.
\<close>

definition ioctl_TIOCGPTN :: "world \<Rightarrow> uintptr \<Rightarrow> uint \<Rightarrow> uintptr \<times> uint \<times> world" where
  "ioctl_TIOCGPTN w fd n =
     (case Syscall_IOCTL w fd TIOCGPTN of
        (errno, w') \<Rightarrow>
          (errno,
           if errno = 0 then (n AND NOT 0xFFFFFFFF) OR ucast (k_ptn w' fd) else n,
           w'))"

text \<open>
  \<open>func (p *PTY) PTSNumber() (uint, error)\<close>: \<open>p.Master\<close> on a nil \<open>p\<close> is a nil
  dereference.
\<close>

definition PTSNumber :: "world \<Rightarrow> PTY option \<Rightarrow> (uint \<times> error option) outcome \<times> world" where
  "PTSNumber w p =
     (case p of
        None \<Rightarrow> (Panic, w)
      | Some pty \<Rightarrow>
          (let ptyno = 0
           in case ioctl_TIOCGPTN w (Fd (Master pty)) ptyno of
                (errno, ptyno, w') \<Rightarrow>
                  if errno \<noteq> 0 then (Return (0, Some (Errno errno)), w')
                  else (Return (ptyno, None), w')))"

text \<open>\<open>strconv.Itoa\<close>: decimal digits, a minus sign for a negative number.\<close>

fun dec_nat :: "nat \<Rightarrow> string" where
  "dec_nat n = (if n < 10 then [''0123456789'' ! n]
                else dec_nat (n div 10) @ [''0123456789'' ! (n mod 10)])"

declare dec_nat.simps [simp del]

definition Itoa :: "int \<Rightarrow> string" where
  "Itoa i = (if i < 0 then CHR ''-'' # dec_nat (nat (- i)) else dec_nat (nat i))"

text \<open>\<open>func (p *PTY) PTSName() (string, error)\<close>; \<open>int(n)\<close> reads the word as signed.\<close>

definition PTSName :: "world \<Rightarrow> PTY option \<Rightarrow> (string \<times> error option) outcome \<times> world" where
  "PTSName w p =
     (case PTSNumber w p of
        (Panic, w') \<Rightarrow> (Panic, w')
      | (Return (n, Some err), w') \<Rightarrow> (Return ('''', Some err), w')
      | (Return (n, None), w') \<Rightarrow> (Return (''/dev/pts/'' @ Itoa (sint n), None), w'))"

section \<open>Example devices\<close>

text \<open>The bytes of \<open>"hunter2"\<close>.\<close>

definition hunter2 :: "byte list" where
  "hunter2 = [0x68, 0x75, 0x6E, 0x74, 0x65, 0x72, 0x32]"

text \<open>
  A terminal with echo on (its local flags are 8, the value of \<open>ECHO\<close>), speed words
  that carry bits outside the baud-rate range, and no failure queued.
\<close>

definition tty :: world where
  "tty = \<lparr>k_termios = (\<lambda>_. Termios_zero\<lparr>Lflag := 8, Ispeed := 0xFFFF, Ospeed := 0x2000D\<rparr>),
     k_ptn = (\<lambda>_. 0),
     k_gname = (\<lambda>_. []),
     k_open = (\<lambda>_. Inl (ErrorString ''no such file'')),
     k_ioctl_errs = [], k_input = [], k_write_errs = [], k_close_errs = [], k_trace = []\<rparr>"

text \<open>A PTY pair with both handles open.\<close>

definition pty_pair :: PTY where
  "pty_pair = \<lparr>Master = Some (File 5), Slave = Some (File 6)\<rparr>"

text \<open>
  A host whose multiplexing device opens as descriptor 5 and names the slave
  \<open>/dev/ttys003\<close>, which opens as descriptor 6.
\<close>

definition pty_host :: world where
  "pty_host = tty\<lparr>
     k_open := (\<lambda>p. if p = ''/dev/ptmx'' then Inr 5
                     else if p = ''/dev/ttys003'' then Inr 6
                     else Inl (ErrorString ''no such file'')),
     k_gname := (\<lambda>_. [0x2F, 0x64, 0x65, 0x76, 0x2F, 0x74, 0x74, 0x79, 0x73, 0x30, 0x30, 0x33, 0])\<rparr>"

text \<open>
  The status the \<open>k\<close>-th \<open>ioctl\<close> to come will get from the queue \<open>q\<close> (0 once the
  queue is used up).
\<close>

definition ioctl_status :: "uintptr list \<Rightarrow> nat \<Rightarrow> uintptr" where
  "ioctl_status q k = (if k < length q then q ! k else 0)"

text \<open>The number that a string of decimal digits denotes.\<close>

definition digit_val :: "char \<Rightarrow> nat" where
  "digit_val c = of_char c - 48"

definition dec_value :: "string \<Rightarrow> nat" where
  "dec_value s = foldl (\<lambda>a c. 10 * a + digit_val c) 0 s"

text \<open>A system call of the trace that ended in an error.\<close>

fun ev_failed :: "event \<Rightarrow> bool" where
  "ev_failed (EvIoctl fd cmd e) = (e \<noteq> 0)"
| "ev_failed (EvOpen name r) = isl r"
| "ev_failed (EvClose fd r) = (r \<noteq> None)"
| "ev_failed (EvRead fd r) = isl r"
| "ev_failed (EvWrite fd data r) = (r \<noteq> None)"

section \<open>Auxiliary facts\<close>

lemma clearbuf_replicate: "clearbuf xs = replicate (length xs) 0"
  by (induction xs) simp_all

lemma clear_prefix_Some:
  "k \<le> length pbuf \<Longrightarrow> clear_prefix pbuf k = Some (replicate k 0 @ drop k pbuf)"
  by (simp add: clear_prefix_def slice_to_def clearbuf_replicate)

lemma clear_prefix_None: "length pbuf < k \<Longrightarrow> clear_prefix pbuf k = None"
  by (simp add: clear_prefix_def slice_to_def)

lemma Syscall_IOCTL_ok:
  "fd \<noteq> - 1 \<Longrightarrow> k_ioctl_errs w = [] \<Longrightarrow> Syscall_IOCTL w fd cmd = (0, emit (EvIoctl fd cmd 0) w)"
  by (simp add: Syscall_IOCTL_def)

lemma File_Read_byte:
  "k_input w = Inr c # rest \<Longrightarrow>
   File_Read w (Some f) b = (None, c, emit (EvRead (fd_of f) (Inr c)) (w\<lparr>k_input := rest\<rparr>))"
  by (simp add: File_Read_def)

lemma GetPass_read_byte:
  "k_input w = Inr c # rest \<Longrightarrow>
   GetPass_read w (Some f) pbuf b i =
     (Some (c, pbuf), emit (EvRead (fd_of f) (Inr c)) (w\<lparr>k_input := rest\<rparr>))"
  by (simp add: GetPass_read_def File_Read_byte)

lemma GetPass_read_frame:
  "k_ioctl_errs (snd (GetPass_read w f pbuf b i)) = k_ioctl_errs w \<and>
   k_termios (snd (GetPass_read w f pbuf b i)) = k_termios w"
  by (simp add: GetPass_read_def File_Read_def emit_def split: option.splits list.splits sum.splits)

lemma GetPass_loop_frame:
  "k_ioctl_errs (snd (snd (GetPass_loop w f pbuf n b i))) = k_ioctl_errs w \<and>
   k_termios (snd (snd (GetPass_loop w f pbuf n b i))) = k_termios w"
proof (induction w f pbuf n b i rule: GetPass_loop.induct)
  case (1 w f pbuf n b i)
  show ?case
  proof (cases "i < n")
    case False
    then show ?thesis
      by (subst (1 2) GetPass_loop.simps) (simp split: option.splits)
  next
    case True
    obtain r w1 where rd: "GetPass_read w f pbuf b i = (r, w1)"
      by (cases "GetPass_read w f pbuf b i")
    have fr: "k_ioctl_errs w1 = k_ioctl_errs w \<and> k_termios w1 = k_termios w"
      using GetPass_read_frame [of w f pbuf b i] rd by simp
    show ?thesis
    proof (cases r)
      case None
      with True rd fr show ?thesis
        by (subst (1 2) GetPass_loop.simps) simp
    next
      case (Some bp)
      obtain b1 pbuf1 where bp: "bp = (b1, pbuf1)" by (cases bp)
      show ?thesis
      proof (cases "b1 = 10 \<or> b1 = 13")
        case True
        with \<open>i < n\<close> rd fr Some bp show ?thesis
          by (subst (1 2) GetPass_loop.simps) simp
      next
        case False
        have ih: "k_ioctl_errs (snd (snd (GetPass_loop w1 f (pbuf1[i := b1]) n 0 (i + 1)))) = k_ioctl_errs w1 \<and>
                  k_termios (snd (snd (GetPass_loop w1 f (pbuf1[i := b1]) n 0 (i + 1)))) = k_termios w1"
          using "1.IH" [OF \<open>i < n\<close> rd [symmetric] _ _ False] Some bp by simp
        from False \<open>i < n\<close> rd fr Some bp ih show ?thesis
          by (subst (1 2) GetPass_loop.simps) simp
      qed
    qed
  qed
qed

lemma GetPass_loop_line:
  assumes "k_input w = map Inr xs @ Inr t # rest"
    and "t = 10 \<or> t = 13"
    and "\<forall>x\<in>set xs. x \<noteq> 10 \<and> x \<noteq> 13"
    and "i + length xs < n"
    and "n \<le> length pbuf"
  shows "fst (GetPass_loop w (Some f) pbuf n b i) = Return (Some (take i pbuf @ xs), None) \<and>
         fst (snd (GetPass_loop w (Some f) pbuf n b i)) = take i pbuf @ xs @ drop (i + length xs) pbuf"
  using assms
proof (induction xs arbitrary: w pbuf b i)
  case Nil
  then have rd: "GetPass_read w (Some f) pbuf b i =
      (Some (t, pbuf), emit (EvRead (fd_of f) (Inr t)) (w\<lparr>k_input := rest\<rparr>))"
    by (simp add: GetPass_read_byte)
  from Nil rd show ?case
    by (subst (1 2) GetPass_loop.simps) auto
next
  case (Cons x xs)
  let ?w1 = "emit (EvRead (fd_of f) (Inr x)) (w\<lparr>k_input := map Inr xs @ Inr t # rest\<rparr>)"
  from Cons.prems have rd: "GetPass_read w (Some f) pbuf b i = (Some (x, pbuf), ?w1)"
    by (simp add: GetPass_read_byte)
  have inp: "k_input ?w1 = map Inr xs @ Inr t # rest" by (simp add: emit_def)
  have il: "i < length pbuf" using Cons.prems by simp
  have ih: "fst (GetPass_loop ?w1 (Some f) (pbuf[i := x]) n 0 (i + 1)) =
              Return (Some (take (i + 1) (pbuf[i := x]) @ xs), None) \<and>
            fst (snd (GetPass_loop ?w1 (Some f) (pbuf[i := x]) n 0 (i + 1))) =
              take (i + 1) (pbuf[i := x]) @ xs @ drop (i + 1 + length xs) (pbuf[i := x])"
    using Cons.IH [OF inp Cons.prems(2), of "i + 1" "pbuf[i := x]" 0] Cons.prems by simp
  have tk: "take (i + 1) (pbuf[i := x]) = take i pbuf @ [x]"
    using il by (simp add: take_Suc_conv_app_nth)
  have nx: "\<not> (x = 10 \<or> x = 13)" using Cons.prems(3) by simp
  have lt: "i < n" using Cons.prems by simp
  show ?case
    using ih tk nx lt rd by (subst (1 2) GetPass_loop.simps) simp
qed

lemma Attr_ok:
  "Fd file \<noteq> - 1 \<Longrightarrow> k_ioctl_errs w = [] \<Longrightarrow>
   Attr w file =
     (((k_termios w (Fd file))\<lparr>Ispeed := Ispeed (k_termios w (Fd file)) AND (CBAUD OR CBAUDEX),
         Ospeed := Ospeed (k_termios w (Fd file)) AND (CBAUD OR CBAUDEX)\<rparr>, None),
      emit (EvIoctl (Fd file) TCGETS 0) w)"
  by (simp add: Attr_def ioctl_TCGETS_def Syscall_IOCTL_ok Let_def emit_def)

lemma Termios_Set_ok:
  "Fd file \<noteq> - 1 \<Longrightarrow> k_ioctl_errs w = [] \<Longrightarrow>
   Termios_Set w t file =
     (None, (emit (EvIoctl (Fd file) TCSETS 0) w)\<lparr>k_termios := (k_termios w)(Fd file := t)\<rparr>)"
  by (simp add: Termios_Set_def ioctl_TCSETS_def Syscall_IOCTL_ok Let_def emit_def)

lemma File_Write_ok:
  "k_write_errs w = [] \<Longrightarrow>
   File_Write w (Some f) data = (None, emit (EvWrite (fd_of f) data None) w)"
  by (simp add: File_Write_def)

lemma GetPass_read_input_only:
  "k_input w = k_input w' \<Longrightarrow>
   fst (GetPass_read w f pbuf b i) = fst (GetPass_read w' f pbuf b i) \<and>
   k_input (snd (GetPass_read w f pbuf b i)) = k_input (snd (GetPass_read w' f pbuf b i))"
  by (simp add: GetPass_read_def File_Read_def emit_def split: option.splits list.splits sum.splits)

lemma GetPass_loop_input_only:
  "k_input w = k_input w' \<Longrightarrow>
   fst (GetPass_loop w f pbuf n b i) = fst (GetPass_loop w' f pbuf n b i) \<and>
   fst (snd (GetPass_loop w f pbuf n b i)) = fst (snd (GetPass_loop w' f pbuf n b i))"
proof (induction w f pbuf n b i arbitrary: w' rule: GetPass_loop.induct)
  case (1 w f pbuf n b i)
  show ?case
  proof (cases "i < n")
    case False
    then show ?thesis
      by (subst (1 2) GetPass_loop.simps, subst (1 2) GetPass_loop.simps [of w'])
         (simp split: option.splits)
  next
    case True
    obtain r w1 where rd: "GetPass_read w f pbuf b i = (r, w1)"
      by (cases "GetPass_read w f pbuf b i")
    obtain r' w1' where rd': "GetPass_read w' f pbuf b i = (r', w1')"
      by (cases "GetPass_read w' f pbuf b i")
    have same: "r' = r \<and> k_input w1 = k_input w1'"
      using GetPass_read_input_only [OF "1.prems", of f pbuf b i] rd rd' by simp
    show ?thesis
    proof (cases r)
      case None
      with True rd rd' same show ?thesis
        by (subst (1 2) GetPass_loop.simps, subst (1 2) GetPass_loop.simps [of w']) simp
    next
      case (Some bp)
      obtain b1 pbuf1 where bp: "bp = (b1, pbuf1)" by (cases bp)
      show ?thesis
      proof (cases "b1 = 10 \<or> b1 = 13")
        case True
        with \<open>i < n\<close> rd rd' same Some bp show ?thesis
          by (subst (1 2) GetPass_loop.simps, subst (1 2) GetPass_loop.simps [of w']) simp
      next
        case False
        have r: "r = Some (b1, pbuf1)" using Some bp by simp
        have ih: "fst (GetPass_loop w1 f (pbuf1[i := b1]) n 0 (i + 1)) =
                    fst (GetPass_loop w1' f (pbuf1[i := b1]) n 0 (i + 1)) \<and>
                  fst (snd (GetPass_loop w1 f (pbuf1[i := b1]) n 0 (i + 1))) =
                    fst (snd (GetPass_loop w1' f (pbuf1[i := b1]) n 0 (i + 1)))"
          using "1.IH" [OF \<open>i < n\<close> rd [symmetric] r refl False, of w1'] same by simp
        from False \<open>i < n\<close> rd rd' same r ih show ?thesis
          by (subst (1 2) GetPass_loop.simps, subst (1 2) GetPass_loop.simps [of w']) simp
      qed
    qed
  qed
qed

lemma GetPass_Attr_fails:
  assumes "fd_of f \<noteq> - 1" "k_ioctl_errs w = e # es" "e \<noteq> 0"
  shows "fst (GetPass ECHO w prompt (Some f) pbuf n) = Return (None, Some (Errno e))"
  using assms
  by (simp add: GetPass_def Attr_def ioctl_TCGETS_def Syscall_IOCTL_def Fd_def Let_def)

lemma GetPass_noecho_fails:
  assumes "fd_of f \<noteq> - 1" "k_ioctl_errs w = 0 # e # es" "e \<noteq> 0"
  shows "fst (GetPass ECHO w prompt (Some f) pbuf n) = Return (None, Some (Errno e))"
  using assms
  by (simp add: GetPass_def GetPass_body_def Attr_def Termios_Set_def ioctl_TCGETS_def
      ioctl_TCSETS_def Syscall_IOCTL_def Fd_def Let_def emit_def)

lemma GetPass_Write_fails:
  assumes "fd_of f \<noteq> - 1"
    and "k_ioctl_errs w = [] \<or> k_ioctl_errs w = [0] \<or> k_ioctl_errs w = 0 # 0 # es"
    and "k_write_errs w = Some err # ws"
  shows "fst (GetPass ECHO w prompt (Some f) pbuf n) = Return (None, Some err)"
  using assms
  by (auto simp add: GetPass_def GetPass_body_def Attr_def Termios_Set_def ioctl_TCGETS_def
      ioctl_TCSETS_def Syscall_IOCTL_def File_Write_def Fd_def Let_def emit_def)

lemma Syscall_IOCTL_zero:
  "fd \<noteq> - 1 \<Longrightarrow> k_ioctl_errs w = 0 # q \<Longrightarrow>
   Syscall_IOCTL w fd cmd = (0, emit (EvIoctl fd cmd 0) (w\<lparr>k_ioctl_errs := q\<rparr>))"
  by (simp add: Syscall_IOCTL_def)

lemma GetPass_after_setup:
  assumes fd: "fd_of f \<noteq> - 1" and q: "k_ioctl_errs w = 0 # 0 # q"
  shows "fst (GetPass ECHO w prompt (Some f) pbuf n) =
           (case k_write_errs w of
              Some err # ws \<Rightarrow> Return (None, Some err)
            | _ \<Rightarrow> fst (GetPass_loop w (Some f) pbuf n 0 0)) \<and>
         fst (snd (GetPass ECHO w prompt (Some f) pbuf n)) =
           (case k_write_errs w of
              Some err # ws \<Rightarrow> pbuf
            | _ \<Rightarrow> fst (snd (GetPass_loop w (Some f) pbuf n 0 0)))"
proof -
  let ?fd = "fd_of f"
  let ?m = "CBAUD OR CBAUDEX"
  let ?t = "(k_termios w ?fd)\<lparr>Ispeed := Ispeed (k_termios w ?fd) AND ?m,
              Ospeed := Ospeed (k_termios w ?fd) AND ?m\<rparr>"
  let ?w1 = "emit (EvIoctl ?fd TCGETS 0) (w\<lparr>k_ioctl_errs := 0 # q\<rparr>)"
  let ?ne = "?t\<lparr>Lflag := Lflag ?t AND NOT ECHO\<rparr>"
  let ?w2 = "(emit (EvIoctl ?fd TCSETS 0) (?w1\<lparr>k_ioctl_errs := q\<rparr>))\<lparr>k_termios := (k_termios w)(?fd := ?ne)\<rparr>"
  have a: "Attr w (Some f) = ((?t, None), ?w1)"
    using fd q by (simp add: Attr_def ioctl_TCGETS_def Syscall_IOCTL_zero Fd_def Let_def emit_def)
  have q1: "k_ioctl_errs ?w1 = 0 # q" by (simp add: emit_def)
  have s: "Termios_Set ?w1 ?ne (Some f) = (None, ?w2)"
    using Syscall_IOCTL_zero [OF fd q1, of TCSETS]
    by (simp add: Termios_Set_def ioctl_TCSETS_def Fd_def Let_def emit_def)
  have g: "GetPass ECHO w prompt (Some f) pbuf n =
      (case GetPass_body ECHO ?w1 prompt (Some f) pbuf n ?t of
         (r, pbuf1, w2) \<Rightarrow> (r, pbuf1, snd (Termios_Set w2 ?t (Some f))))"
    using a by (simp add: GetPass_def)
  have b: "GetPass_body ECHO ?w1 prompt (Some f) pbuf n ?t =
      (case File_Write ?w2 (Some f) prompt of
         (Some err, w2) \<Rightarrow> (Return (None, Some err), pbuf, w2)
       | (None, w2) \<Rightarrow> GetPass_loop w2 (Some f) pbuf n 0 0)"
    using s by (simp add: GetPass_body_def Let_def)
  have wq: "k_write_errs ?w2 = k_write_errs w" by (simp add: emit_def)
  have iq: "k_input ?w2 = k_input w" by (simp add: emit_def)
  show ?thesis
  proof (cases "k_write_errs w")
    case Nil
    let ?w3 = "emit (EvWrite ?fd prompt None) ?w2"
    have fw: "File_Write ?w2 (Some f) prompt = (None, ?w3)"
      using Nil wq by (simp add: File_Write_def)
    have "k_input ?w3 = k_input w" by (simp add: emit_def)
    note lp = GetPass_loop_input_only [OF this, of "Some f" pbuf n 0 0]
    show ?thesis using g b fw lp Nil by (simp split: prod.splits)
  next
    case (Cons r rs)
    show ?thesis
    proof (cases r)
      case None
      let ?w3 = "emit (EvWrite ?fd prompt None) (?w2\<lparr>k_write_errs := rs\<rparr>)"
      have fw: "File_Write ?w2 (Some f) prompt = (None, ?w3)"
        using Cons None wq by (simp add: File_Write_def)
      have "k_input ?w3 = k_input w" by (simp add: emit_def)
      note lp = GetPass_loop_input_only [OF this, of "Some f" pbuf n 0 0]
      show ?thesis using g b fw lp Cons None by (simp split: prod.splits)
    next
      case (Some err)
      let ?w3 = "emit (EvWrite ?fd prompt (Some err)) (?w2\<lparr>k_write_errs := rs\<rparr>)"
      have fw: "File_Write ?w2 (Some f) prompt = (Some err, ?w3)"
        using Cons Some wq by (simp add: File_Write_def)
      show ?thesis using g b fw Cons Some by simp
    qed
  qed
qed

lemma GetPass_restore_status_dropped:
  assumes fd: "fd_of f \<noteq> - 1"
  shows "fst (GetPass ECHO (w\<lparr>k_ioctl_errs := [0, 0, e]\<rparr>) prompt (Some f) pbuf n) =
           fst (GetPass ECHO (w\<lparr>k_ioctl_errs := [0, 0, 0]\<rparr>) prompt (Some f) pbuf n) \<and>
         fst (snd (GetPass ECHO (w\<lparr>k_ioctl_errs := [0, 0, e]\<rparr>) prompt (Some f) pbuf n)) =
           fst (snd (GetPass ECHO (w\<lparr>k_ioctl_errs := [0, 0, 0]\<rparr>) prompt (Some f) pbuf n))"
proof -
  let ?we = "w\<lparr>k_ioctl_errs := [0, 0, e]\<rparr>"
  let ?w0 = "w\<lparr>k_ioctl_errs := [0, 0, 0]\<rparr>"
  have "k_input ?we = k_input ?w0" by simp
  note lp = GetPass_loop_input_only [OF this, of "Some f" pbuf n 0 0]
  have e: "k_ioctl_errs ?we = 0 # 0 # [e]" and z: "k_ioctl_errs ?w0 = 0 # 0 # [0]" by simp_all
  show ?thesis
    using GetPass_after_setup [OF fd e, of ECHO prompt pbuf n]
      GetPass_after_setup [OF fd z, of ECHO prompt pbuf n] lp
    by (simp split: list.splits option.splits)
qed

text \<open>
  After the loop (\<open>i = len(pbuf)\<close>) the slice \<open>pbuf[:i+1]\<close> exists only when the capacity
  exceeds the length: otherwise the call panics.
\<close>

lemma GetPass_loop_exhausted:
  "GetPass_loop w f pbuf n b n =
     (if n < length pbuf
      then (Return (None, Some (ErrorString ''ran out of bufferspace'')),
            replicate (Suc n) 0 @ drop (Suc n) pbuf, w)
      else (Panic, pbuf, w))"
  by (subst GetPass_loop.simps) (simp add: clear_prefix_Some clear_prefix_None)

text \<open>
  A failed read at position \<open>i\<close> zeroes the first \<open>i + 1\<close> bytes, and the loop goes on
  with position \<open>i + 1\<close>.
\<close>

lemma GetPass_loop_read_error:
  assumes "k_input w = Inl e # rest" "i < n" "n \<le> length pbuf"
  shows "GetPass_loop w (Some f) pbuf n b i =
           GetPass_loop (emit (EvRead (fd_of f) (Inl e)) (w\<lparr>k_input := rest\<rparr>)) (Some f)
             (replicate (Suc i) 0 @ drop (Suc i) pbuf) n 0 (Suc i)"
proof -
  have rd: "GetPass_read w (Some f) pbuf b i =
      (Some (0, replicate (Suc i) 0 @ drop (Suc i) pbuf),
       emit (EvRead (fd_of f) (Inl e)) (w\<lparr>k_input := rest\<rparr>))"
    using assms by (simp add: GetPass_read_def File_Read_def clear_prefix_Some)
  have up: "(replicate (Suc i) 0 @ drop (Suc i) pbuf)[i := 0] = replicate (Suc i) (0 :: byte) @ drop (Suc i) pbuf"
  proof -
    have "(replicate (Suc i) (0 :: byte))[i := 0] = replicate (Suc i) 0"
      by (rule nth_equalityI) (auto simp: nth_list_update simp del: replicate_Suc)
    then show ?thesis
      by (simp add: list_update_append1 del: replicate_Suc)
  qed
  show ?thesis
    using assms(2) rd up by (subst GetPass_loop.simps) simp
qed

lemma mask_idem: "(x AND m) AND m = (x AND m :: 'a :: len word)"
  by (simp add: and.assoc)

lemma sint_ucast_32_64: "sint (ucast (x :: 32 word) :: 64 word) = int (unat x)"
proof -
  have u: "uint (ucast x :: 64 word) = uint x"
    by (rule uint_up_ucast) (simp add: is_up)
  have lo: "- (2 ^ 63) \<le> uint x"
    by (rule order_trans [of _ 0]) simp_all
  have "uint x < 2 ^ 32"
    using uint_lt2p [of x] by simp
  then have hi: "uint x < 2 ^ 63"
    by simp
  have "sint (ucast x :: 64 word) = signed_take_bit 63 (uint x)"
    by (simp add: sint_uint u)
  also have "\<dots> = uint x"
    using lo hi by (simp add: signed_take_bit_int_eq_self)
  finally show ?thesis by simp
qed

lemma unat_ucast_32_64: "unat (ucast (x :: 32 word) :: 64 word) = unat x"
proof -
  have "uint (ucast x :: 64 word) = uint x"
    by (rule uint_up_ucast) (simp add: is_up)
  then show ?thesis
    by (simp only: unat_eq_nat_uint)
qed

lemma PTSNumber_Some:
  "PTSNumber w (Some pty) =
     (case Syscall_IOCTL w (Fd (Master pty)) TIOCGPTN of
        (e, w') \<Rightarrow>
          if e \<noteq> 0 then (Return (0, Some (Errno e)), w')
          else (Return (ucast (k_ptn w' (Fd (Master pty))), None), w'))"
  by (simp add: PTSNumber_def ioctl_TIOCGPTN_def Let_def split: prod.splits)

lemma Syscall_IOCTL_world:
  "Syscall_IOCTL w fd cmd = (e, w') \<Longrightarrow>
   k_trace w' = k_trace w @ [EvIoctl fd cmd e] \<and> k_ptn w' = k_ptn w \<and>
   k_termios w' = k_termios w \<and> k_gname w' = k_gname w \<and> k_open w' = k_open w"
  by (auto simp: Syscall_IOCTL_def emit_def split: if_splits list.splits)

lemma File_Close_trace:
  "File_Close w (Some f) = (r, w') \<Longrightarrow> k_trace w' = k_trace w @ [EvClose (fd_of f) r]"
  by (auto simp: File_Close_def emit_def split: list.splits)

lemma parm_len: "unat (IOC_PARM_LEN TIOCPTYGNAME) = 128"
  by (simp add: IOC_PARM_LEN_def TIOCPTYGNAME_def IOC_PARAM_MASK_def IOC_PARAM_SHIFT_def)

lemma ioctl_status_tl: "ioctl_status (tl q) k = ioctl_status q (Suc k)"
  by (cases q) (simp_all add: ioctl_status_def)

lemma Syscall_IOCTL_status:
  "fd \<noteq> - 1 \<Longrightarrow>
   Syscall_IOCTL w fd cmd =
     (ioctl_status (k_ioctl_errs w) 0,
      emit (EvIoctl fd cmd (ioctl_status (k_ioctl_errs w) 0)) (w\<lparr>k_ioctl_errs := tl (k_ioctl_errs w)\<rparr>))"
  by (cases w; cases "k_ioctl_errs w") (simp_all add: Syscall_IOCTL_def ioctl_status_def emit_def)

lemma nul_index_takeWhile:
  "nul_index bs = (if 0 \<in> set bs then Some (length (takeWhile (\<lambda>c. c \<noteq> 0) bs)) else None)"
  by (induction bs) auto

lemma take_nul: "take (length (takeWhile P bs)) bs = takeWhile P bs"
  by (rule takeWhile_eq_take [symmetric])

lemma ptsname_valid:
  assumes "fd_of f \<noteq> - 1"
  shows "ptsname w (Some f) =
    (let s = ioctl_status (k_ioctl_errs w) 0;
         w' = emit (EvIoctl (fd_of f) TIOCPTYGNAME s) (w\<lparr>k_ioctl_errs := tl (k_ioctl_errs w)\<rparr>);
         buf = copyout (replicate 128 0) (k_gname w (fd_of f))
     in if s \<noteq> 0 then (('''', Some (Errno s)), w')
        else if 0 \<in> set buf then ((string_of_bytes (takeWhile (\<lambda>c. c \<noteq> 0) buf), None), w')
        else (('''', Some (ErrorString ''TIOCPTYGNAME string not NUL-terminated'')), w'))"
proof -
  define s where "s = ioctl_status (k_ioctl_errs w) 0"
  define w' where "w' = emit (EvIoctl (fd_of f) TIOCPTYGNAME s) (w\<lparr>k_ioctl_errs := tl (k_ioctl_errs w)\<rparr>)"
  define buf where "buf = copyout (replicate 128 0) (k_gname w (fd_of f))"
  have kg: "k_gname w' = k_gname w"
    by (simp add: w'_def emit_def)
  have mem: "ioctl_mem w' (fd_of f) TIOCPTYGNAME (replicate 128 0) = buf"
    by (simp add: ioctl_mem_def buf_def kg)
  have io: "ioctl w (fd_of f) TIOCPTYGNAME (replicate 128 0) =
      (if s \<noteq> 0 then (Some (Errno s), replicate 128 0, w') else (None, buf, w'))"
    using assms mem by (simp add: ioctl_def Syscall_IOCTL_status s_def [symmetric] w'_def [symmetric])
  have "ptsname w (Some f) =
      (if s \<noteq> 0 then (('''', Some (Errno s)), w')
       else if 0 \<in> set buf then ((string_of_bytes (takeWhile (\<lambda>c. c \<noteq> 0) buf), None), w')
       else (('''', Some (ErrorString ''TIOCPTYGNAME string not NUL-terminated'')), w'))"
    using io by (simp add: ptsname_def parm_len Fd_def nul_index_takeWhile take_nul)
  then show ?thesis
    unfolding Let_def s_def w'_def buf_def .
qed

lemma grantpt_valid:
  assumes "fd_of f \<noteq> - 1"
  shows "grantpt w (Some f) =
    (let s = ioctl_status (k_ioctl_errs w) 0;
         w' = emit (EvIoctl (fd_of f) TIOCPTYGRANT s) (w\<lparr>k_ioctl_errs := tl (k_ioctl_errs w)\<rparr>)
     in (if s \<noteq> 0 then Some (Errno s) else None, w'))"
  using assms
  by (simp add: grantpt_def ioctl_def Syscall_IOCTL_status Fd_def Let_def)

lemma unlockpt_valid:
  assumes "fd_of f \<noteq> - 1"
  shows "unlockpt w (Some f) =
    (let s = ioctl_status (k_ioctl_errs w) 0;
         w' = emit (EvIoctl (fd_of f) TIOCPTYUNLK s) (w\<lparr>k_ioctl_errs := tl (k_ioctl_errs w)\<rparr>)
     in (if s \<noteq> 0 then Some (Errno s) else None, w'))"
  using assms
  by (simp add: unlockpt_def ioctl_def Syscall_IOCTL_status Fd_def Let_def)

lemma OpenPTY_unfold:
  assumes "k_open w ''/dev/ptmx'' = Inr mfd" "mfd \<noteq> - 1"
  shows "OpenPTY w =
    (let q = k_ioctl_errs w;
         buf = copyout (replicate 128 0) (k_gname w mfd);
         sname = string_of_bytes (takeWhile (\<lambda>c. c \<noteq> 0) buf);
         w1 = emit (EvOpen ''/dev/ptmx'' (Inr mfd)) w;
         w2 = emit (EvIoctl mfd TIOCPTYGNAME (ioctl_status q 0)) (w1\<lparr>k_ioctl_errs := tl q\<rparr>);
         w3 = emit (EvIoctl mfd TIOCPTYGRANT (ioctl_status q 1)) (w2\<lparr>k_ioctl_errs := tl (tl q)\<rparr>);
         w4 = emit (EvIoctl mfd TIOCPTYUNLK (ioctl_status q 2)) (w3\<lparr>k_ioctl_errs := tl (tl (tl q))\<rparr>)
     in if ioctl_status q 0 \<noteq> 0 then ((None, Some (Errno (ioctl_status q 0))), w2)
        else if 0 \<notin> set buf
          then ((None, Some (ErrorString ''TIOCPTYGNAME string not NUL-terminated'')), w2)
        else if ioctl_status q 1 \<noteq> 0 then ((None, Some (Errno (ioctl_status q 1))), w3)
        else if ioctl_status q 2 \<noteq> 0 then ((None, Some (Errno (ioctl_status q 2))), w4)
        else case k_open w sname of
               Inl e \<Rightarrow> ((None, Some e), emit (EvOpen sname (Inl e)) w4)
             | Inr sfd \<Rightarrow>
                 ((Some \<lparr>Master = Some (File mfd), Slave = Some (File sfd)\<rparr>, None),
                  emit (EvOpen sname (Inr sfd)) w4))"
proof -
  define q where "q = k_ioctl_errs w"
  define buf where "buf = copyout (replicate 128 0) (k_gname w mfd)"
  define sname where "sname = string_of_bytes (takeWhile (\<lambda>c. c \<noteq> 0) buf)"
  define w1 where "w1 = emit (EvOpen ''/dev/ptmx'' (Inr mfd)) w"
  define w2 where "w2 = emit (EvIoctl mfd TIOCPTYGNAME (ioctl_status q 0)) (w1\<lparr>k_ioctl_errs := tl q\<rparr>)"
  define w3 where "w3 = emit (EvIoctl mfd TIOCPTYGRANT (ioctl_status q 1)) (w2\<lparr>k_ioctl_errs := tl (tl q)\<rparr>)"
  define w4 where "w4 = emit (EvIoctl mfd TIOCPTYUNLK (ioctl_status q 2)) (w3\<lparr>k_ioctl_errs := tl (tl (tl q))\<rparr>)"
  have fd: "fd_of (File mfd) \<noteq> - 1" using assms(2) by simp
  have o1: "OpenFile w ''/dev/ptmx'' = ((Some (File mfd), None), w1)"
    using assms(1) by (simp add: OpenFile_def w1_def)
  have q1: "k_ioctl_errs w1 = q" "k_gname w1 = k_gname w"
    by (simp_all add: w1_def emit_def q_def)
  have p: "ptsname w1 (Some (File mfd)) =
      (if ioctl_status q 0 \<noteq> 0 then (('''', Some (Errno (ioctl_status q 0))), w2)
       else if 0 \<in> set buf then ((sname, None), w2)
       else (('''', Some (ErrorString ''TIOCPTYGNAME string not NUL-terminated'')), w2))"
    using ptsname_valid [OF fd, of w1] by (simp add: Let_def q1 w2_def buf_def sname_def)
  have q2: "k_ioctl_errs w2 = tl q"
    by (simp add: w2_def emit_def)
  have g: "grantpt w2 (Some (File mfd)) =
      (if ioctl_status q 1 \<noteq> 0 then Some (Errno (ioctl_status q 1)) else None, w3)"
    using grantpt_valid [OF fd, of w2] by (simp add: Let_def q2 w3_def ioctl_status_tl)
  have q3: "k_ioctl_errs w3 = tl (tl q)"
    by (simp add: w3_def emit_def)
  have u: "unlockpt w3 (Some (File mfd)) =
      (if ioctl_status q 2 \<noteq> 0 then Some (Errno (ioctl_status q 2)) else None, w4)"
    using unlockpt_valid [OF fd, of w3]
    by (simp add: Let_def q3 w4_def ioctl_status_tl numeral_2_eq_2)
  have ko: "k_open w4 = k_open w"
    by (simp add: w4_def w3_def w2_def w1_def emit_def)
  have o2: "OpenFile w4 sname =
      (case k_open w sname of
         Inl e \<Rightarrow> ((None, Some e), emit (EvOpen sname (Inl e)) w4)
       | Inr sfd \<Rightarrow> ((Some (File sfd), None), emit (EvOpen sname (Inr sfd)) w4))"
    by (simp add: OpenFile_def ko)
  have "OpenPTY w =
     (if ioctl_status q 0 \<noteq> 0 then ((None, Some (Errno (ioctl_status q 0))), w2)
        else if 0 \<notin> set buf
          then ((None, Some (ErrorString ''TIOCPTYGNAME string not NUL-terminated'')), w2)
        else if ioctl_status q 1 \<noteq> 0 then ((None, Some (Errno (ioctl_status q 1))), w3)
        else if ioctl_status q 2 \<noteq> 0 then ((None, Some (Errno (ioctl_status q 2))), w4)
        else case k_open w sname of
               Inl e \<Rightarrow> ((None, Some e), emit (EvOpen sname (Inl e)) w4)
             | Inr sfd \<Rightarrow>
                 ((Some \<lparr>Master = Some (File mfd), Slave = Some (File sfd)\<rparr>, None),
                  emit (EvOpen sname (Inr sfd)) w4))"
    using o1 p g u o2 by (simp add: OpenPTY_def split: sum.splits)
  then show ?thesis
    unfolding Let_def w4_def w3_def w2_def w1_def sname_def buf_def q_def .
qed

lemma copyout_terminated:
  assumes "g = name @ 0 # junk" "0 \<notin> set name" "length name < length mem"
  shows "0 \<in> set (copyout mem g) \<and> takeWhile (\<lambda>c. c \<noteq> 0) (copyout mem g) = name"
proof -
  have t: "copyout mem g =
      name @ 0 # take (length mem - Suc (length name)) (junk @ drop (length g) mem)"
    using assms by (simp add: copyout_def take_Cons')
  have "\<And>rest. takeWhile (\<lambda>c. c \<noteq> 0) (name @ 0 # rest) = name"
    using assms(2) by (induction name) auto
  then show ?thesis
    unfolding t by simp
qed

lemma ttys003:
  "string_of_bytes [0x2F, 0x64, 0x65, 0x76, 0x2F, 0x74, 0x74, 0x79, 0x73, 0x30, 0x30, 0x33] =
     ''/dev/ttys003''"
  by (simp add: string_of_bytes_def char_of_def bit_0)

lemma digit_val_nth: "d < 10 \<Longrightarrow> digit_val (''0123456789'' ! d) = d"
proof -
  assume "d < 10"
  then have "d = 0 \<or> d = 1 \<or> d = 2 \<or> d = 3 \<or> d = 4 \<or> d = 5 \<or> d = 6 \<or> d = 7 \<or> d = 8 \<or> d = 9"
    by arith
  then show ?thesis
    by (elim disjE) (simp_all add: digit_val_def)
qed

lemma dec_value_snoc: "dec_value (s @ [c]) = 10 * dec_value s + digit_val c"
  by (simp add: dec_value_def)

text \<open>\<open>dec_nat\<close> writes the decimal numeral of its argument: reading it back gives the number.\<close>

lemma dec_value_dec_nat: "dec_value (dec_nat n) = n"
proof (induction n rule: dec_nat.induct)
  case (1 n)
  show ?case
  proof (cases "n < 10")
    case True
    then show ?thesis
      by (subst dec_nat.simps) (simp add: dec_value_def digit_val_nth)
  next
    case False
    have "dec_value (dec_nat n) =
        10 * dec_value (dec_nat (n div 10)) + digit_val (''0123456789'' ! (n mod 10))"
      using False by (subst dec_nat.simps) (simp add: dec_value_snoc)
    also have "\<dots> = 10 * (n div 10) + n mod 10"
      using "1.IH" [OF False] by (simp add: digit_val_nth)
    finally show ?thesis by simp
  qed
qed

section \<open>Properties of the secure prompt reader\<close>

lemmas GetPass_defs = GetPass_loop.simps GetPass_def GetPass_body_def GetPass_read_def Attr_def
  Termios_Set_def ioctl_TCGETS_def ioctl_TCSETS_def Syscall_IOCTL_def File_Read_def
  File_Write_def emit_def Fd_def clear_prefix_def slice_to_def Let_def

text \<open>
  C1, evaluated on the code: a four-byte buffer and the reads \<open>a\<close>, a read error,
  \<open>b\<close>, newline. The buffer is zeroed up to the failed slot, but the call does not
  return there: it reads the two further bytes and returns the slice \<open>[0, 0, b]\<close> with
  a nil error.
\<close>

theorem GetPass_read_error_keeps_reading:
  "fst (GetPass 8 (tty\<lparr>k_input := [Inr 0x61, Inl (Errno 5), Inr 0x62, Inr 10]\<rparr>) ''Password: ''
          (Some (File 3)) [7, 7, 7, 7] 4) = Return (Some [0, 0, 0x62], None) \<and>
   k_input (snd (snd (GetPass 8 (tty\<lparr>k_input := [Inr 0x61, Inl (Errno 5), Inr 0x62, Inr 10]\<rparr>)
          ''Password: '' (Some (File 3)) [7, 7, 7, 7] 4))) = []"
  by (simp add: GetPass_defs tty_def)

text \<open>
  C2, evaluated on the code: a buffer of length and capacity 2 and the input \<open>abc\<close>
  with no terminator. After the loop \<open>pbuf[:i+1]\<close> asks for three bytes of a two-byte
  array: the call panics, and the buffer still holds \<open>ab\<close>.
\<close>

theorem GetPass_exhaustion_panics:
  "fst (GetPass 8 (tty\<lparr>k_input := [Inr 0x61, Inr 0x62, Inr 0x63]\<rparr>) ''Password: ''
          (Some (File 3)) [0, 0] 2) = Panic \<and>
   fst (snd (GetPass 8 (tty\<lparr>k_input := [Inr 0x61, Inr 0x62, Inr 0x63]\<rparr>) ''Password: ''
          (Some (File 3)) [0, 0] 2)) = [0x61, 0x62]"
  by (simp add: GetPass_defs tty_def)

text \<open>
  C3: when the terminal answers every request, the prompt is written, and the input is
  \<open>hunter2\<close> followed by a line terminator (\<open>\n\<close> or \<open>\r\<close>), then for a buffer of length
  at least 8 the call returns exactly the bytes \<open>hunter2\<close>, and the local flags of the
  device (the echo bit among them) are afterwards what they were before the call.
\<close>

theorem GetPass_hunter2:
  assumes fd: "fd_of f \<noteq> - 1"
    and io: "k_ioctl_errs w = []"
    and wr: "k_write_errs w = []"
    and inp: "k_input w = map Inr hunter2 @ Inr t # rest"
    and t: "t = 10 \<or> t = 13"
    and n: "8 \<le> n" "n \<le> length pbuf"
  shows "fst (GetPass ECHO w prompt (Some f) pbuf n) = Return (Some hunter2, None) \<and>
         Lflag (k_termios (snd (snd (GetPass ECHO w prompt (Some f) pbuf n))) (fd_of f)) =
           Lflag (k_termios w (fd_of f))"
proof -
  let ?fd = "fd_of f"
  let ?m = "CBAUD OR CBAUDEX"
  let ?t = "(k_termios w ?fd)\<lparr>Ispeed := Ispeed (k_termios w ?fd) AND ?m,
              Ospeed := Ospeed (k_termios w ?fd) AND ?m\<rparr>"
  let ?w1 = "emit (EvIoctl ?fd TCGETS 0) w"
  let ?ne = "?t\<lparr>Lflag := Lflag ?t AND NOT ECHO\<rparr>"
  let ?w2 = "(emit (EvIoctl ?fd TCSETS 0) ?w1)\<lparr>k_termios := (k_termios ?w1)(?fd := ?ne)\<rparr>"
  let ?w3 = "emit (EvWrite ?fd prompt None) ?w2"
  have Fd: "Fd (Some f) = ?fd" by (simp add: Fd_def)
  have a: "Attr w (Some f) = ((?t, None), ?w1)"
    using Attr_ok [of "Some f" w] fd io by (simp add: Fd)
  have s: "Termios_Set ?w1 ?ne (Some f) = (None, ?w2)"
    using Termios_Set_ok [of "Some f" ?w1 ?ne] fd io by (simp add: Fd emit_def)
  have wr3: "File_Write ?w2 (Some f) prompt = (None, ?w3)"
    using wr by (simp add: File_Write_ok emit_def)
  have body: "GetPass_body ECHO ?w1 prompt (Some f) pbuf n ?t = GetPass_loop ?w3 (Some f) pbuf n 0 0"
    using s wr3 by (simp add: GetPass_body_def Let_def)
  have inp3: "k_input ?w3 = map Inr hunter2 @ Inr t # rest"
    using inp by (simp add: emit_def)
  have nt: "\<forall>x\<in>set hunter2. x \<noteq> 10 \<and> x \<noteq> 13" by (simp add: hunter2_def)
  have len: "0 + length hunter2 < n" using n by (simp add: hunter2_def)
  note line = GetPass_loop_line [OF inp3 t nt len n(2), of f 0]
  obtain r p w4 where lp: "GetPass_loop ?w3 (Some f) pbuf n 0 0 = (r, p, w4)"
    by (cases "GetPass_loop ?w3 (Some f) pbuf n 0 0")
  have r: "r = Return (Some hunter2, None)" using line lp by simp
  have fr: "k_ioctl_errs w4 = [] \<and> k_termios w4 = k_termios ?w3"
    using GetPass_loop_frame [of ?w3 "Some f" pbuf n 0 0] lp io by (simp add: emit_def)
  have rs: "Termios_Set w4 ?t (Some f) =
      (None, (emit (EvIoctl ?fd TCSETS 0) w4)\<lparr>k_termios := (k_termios w4)(?fd := ?t)\<rparr>)"
    using Termios_Set_ok [of "Some f" w4 ?t] fd fr by (simp add: Fd)
  have g: "GetPass ECHO w prompt (Some f) pbuf n =
      (r, p, (emit (EvIoctl ?fd TCSETS 0) w4)\<lparr>k_termios := (k_termios w4)(?fd := ?t)\<rparr>)"
    using a body lp rs by (simp add: GetPass_def)
  show ?thesis using g r by simp
qed

theorem GetPass_hunter2_witness:
  "fd_of (File 3) \<noteq> - 1 \<and>
   k_ioctl_errs (tty\<lparr>k_input := map Inr hunter2 @ [Inr 10]\<rparr>) = [] \<and>
   k_write_errs (tty\<lparr>k_input := map Inr hunter2 @ [Inr 10]\<rparr>) = [] \<and>
   (8::nat) \<le> 8 \<and> 8 \<le> length [0, 0, 0, 0, 0, 0, 0, 0 :: byte] \<and>
   fst (GetPass 8 (tty\<lparr>k_input := map Inr hunter2 @ [Inr 10]\<rparr>) ''Password: '' (Some (File 3))
          [0, 0, 0, 0, 0, 0, 0, 0] 8) = Return (Some hunter2, None) \<and>
   Lflag (k_termios (snd (snd (GetPass 8 (tty\<lparr>k_input := map Inr hunter2 @ [Inr 10]\<rparr>)
          ''Password: '' (Some (File 3)) [0, 0, 0, 0, 0, 0, 0, 0] 8))) 3) = 8"
  using GetPass_hunter2 [where f = "File 3" and w = "tty\<lparr>k_input := map Inr hunter2 @ [Inr 10]\<rparr>"
      and t = 10 and rest = "[]" and n = 8 and pbuf = "[0, 0, 0, 0, 0, 0, 0, 0]" and ECHO = 8
      and prompt = "''Password: ''"]
  by (simp add: tty_def Termios_zero_def)

text \<open>
  C4, as stated, fails on the code: with the restoring \<open>TCSETS\<close> failing (status 5), the
  last system call of the run is a failed one, yet the call returns the password with a
  nil error, and echo stays off.
\<close>

theorem GetPass_restore_failure_unreported:
  "ev_failed (last (k_trace (snd (snd (GetPass 8
      (tty\<lparr>k_input := map Inr hunter2 @ [Inr 10], k_ioctl_errs := [0, 0, 5]\<rparr>)
      ''Password: '' (Some (File 3)) [0, 0, 0, 0, 0, 0, 0, 0] 8))))) \<and>
   fst (GetPass 8 (tty\<lparr>k_input := map Inr hunter2 @ [Inr 10], k_ioctl_errs := [0, 0, 5]\<rparr>)
      ''Password: '' (Some (File 3)) [0, 0, 0, 0, 0, 0, 0, 0] 8) = Return (Some hunter2, None) \<and>
   Lflag (k_termios (snd (snd (GetPass 8
      (tty\<lparr>k_input := map Inr hunter2 @ [Inr 10], k_ioctl_errs := [0, 0, 5]\<rparr>)
      ''Password: '' (Some (File 3)) [0, 0, 0, 0, 0, 0, 0, 0] 8))) 3) AND 8 = 0"
  by (simp add: GetPass_defs tty_def hunter2_def Termios_zero_def)

text \<open>
  C4, amended: on a valid descriptor, a failure of the attributes query, of the
  echo-disabling \<open>TCSETS\<close> or of the prompt write is returned to the caller as that
  call's error. The status of the final restoring \<open>TCSETS\<close> is dropped: whatever it is,
  the returned pair and the buffer are those of a run in which it succeeds.
\<close>

theorem GetPass_surfaces_setup_errors:
  assumes "fd_of f \<noteq> - 1"
  shows "(\<forall>e es. k_ioctl_errs w = e # es \<and> e \<noteq> 0 \<longrightarrow>
            fst (GetPass ECHO w prompt (Some f) pbuf n) = Return (None, Some (Errno e))) \<and>
         (\<forall>e es. k_ioctl_errs w = 0 # e # es \<and> e \<noteq> 0 \<longrightarrow>
            fst (GetPass ECHO w prompt (Some f) pbuf n) = Return (None, Some (Errno e))) \<and>
         (\<forall>err ws es.
            (k_ioctl_errs w = [] \<or> k_ioctl_errs w = [0] \<or> k_ioctl_errs w = 0 # 0 # es) \<and>
            k_write_errs w = Some err # ws \<longrightarrow>
            fst (GetPass ECHO w prompt (Some f) pbuf n) = Return (None, Some err)) \<and>
         (\<forall>e. fst (GetPass ECHO (w\<lparr>k_ioctl_errs := [0, 0, e]\<rparr>) prompt (Some f) pbuf n) =
                fst (GetPass ECHO (w\<lparr>k_ioctl_errs := [0, 0, 0]\<rparr>) prompt (Some f) pbuf n) \<and>
              fst (snd (GetPass ECHO (w\<lparr>k_ioctl_errs := [0, 0, e]\<rparr>) prompt (Some f) pbuf n)) =
                fst (snd (GetPass ECHO (w\<lparr>k_ioctl_errs := [0, 0, 0]\<rparr>) prompt (Some f) pbuf n)))"
proof (intro conjI allI impI)
  fix e es
  assume "k_ioctl_errs w = e # es \<and> e \<noteq> 0"
  then show "fst (GetPass ECHO w prompt (Some f) pbuf n) = Return (None, Some (Errno e))"
    using assms GetPass_Attr_fails by blast
next
  fix e es
  assume "k_ioctl_errs w = 0 # e # es \<and> e \<noteq> 0"
  then show "fst (GetPass ECHO w prompt (Some f) pbuf n) = Return (None, Some (Errno e))"
    using assms GetPass_noecho_fails by blast
next
  fix err ws es
  assume "(k_ioctl_errs w = [] \<or> k_ioctl_errs w = [0] \<or> k_ioctl_errs w = 0 # 0 # es) \<and>
          k_write_errs w = Some err # ws"
  then show "fst (GetPass ECHO w prompt (Some f) pbuf n) = Return (None, Some err)"
    using assms GetPass_Write_fails by blast
next
  fix e
  show "fst (GetPass ECHO (w\<lparr>k_ioctl_errs := [0, 0, e]\<rparr>) prompt (Some f) pbuf n) =
        fst (GetPass ECHO (w\<lparr>k_ioctl_errs := [0, 0, 0]\<rparr>) prompt (Some f) pbuf n)"
    using assms GetPass_restore_status_dropped by blast
next
  fix e
  show "fst (snd (GetPass ECHO (w\<lparr>k_ioctl_errs := [0, 0, e]\<rparr>) prompt (Some f) pbuf n)) =
        fst (snd (GetPass ECHO (w\<lparr>k_ioctl_errs := [0, 0, 0]\<rparr>) prompt (Some f) pbuf n))"
    using assms GetPass_restore_status_dropped by blast
qed

theorem GetPass_surfaces_setup_errors_witness:
  "fd_of (File 3) \<noteq> - 1 \<and>
   fst (GetPass 8 (tty\<lparr>k_ioctl_errs := [25]\<rparr>) ''Password: '' (Some (File 3)) [0, 0] 2) =
     Return (None, Some (Errno 25)) \<and>
   fst (GetPass 8 (tty\<lparr>k_ioctl_errs := [0, 25]\<rparr>) ''Password: '' (Some (File 3)) [0, 0] 2) =
     Return (None, Some (Errno 25)) \<and>
   fst (GetPass 8 (tty\<lparr>k_write_errs := [Some (ErrorString ''write /dev/tty: input/output error'')]\<rparr>)
          ''Password: '' (Some (File 3)) [0, 0] 2) =
     Return (None, Some (ErrorString ''write /dev/tty: input/output error''))"
  using GetPass_surfaces_setup_errors [where f = "File 3" and w = "tty\<lparr>k_ioctl_errs := [25]\<rparr>"
      and ECHO = 8 and prompt = "''Password: ''" and pbuf = "[0, 0]" and n = 2]
    GetPass_surfaces_setup_errors [where f = "File 3" and w = "tty\<lparr>k_ioctl_errs := [0, 25]\<rparr>"
      and ECHO = 8 and prompt = "''Password: ''" and pbuf = "[0, 0]" and n = 2]
    GetPass_surfaces_setup_errors [where f = "File 3"
      and w = "tty\<lparr>k_write_errs := [Some (ErrorString ''write /dev/tty: input/output error'')]\<rparr>"
      and ECHO = 8 and prompt = "''Password: ''" and pbuf = "[0, 0]" and n = 2]
  by (simp add: tty_def)

section \<open>Properties of the attributes query and of terminal detection\<close>

text \<open>
  C7: \<open>Isatty\<close> answers true exactly when the attributes query on the handle succeeds;
  an error of the query becomes the answer false, and nothing else is done. The result
  is a boolean for every handle, the nil handle included.
\<close>

theorem Isatty_iff_Attr_succeeds:
  "(fst (Isatty w file) \<longleftrightarrow> snd (fst (Attr w file)) = None) \<and>
   (\<forall>e. snd (fst (Attr w file)) = Some e \<longrightarrow> fst (Isatty w file) = False) \<and>
   snd (Isatty w file) = snd (Attr w file)"
  by (simp add: Isatty_def split: prod.splits)

theorem Isatty_iff_Attr_succeeds_witness:
  "fst (Isatty tty (Some (File 3))) \<and> snd (fst (Attr tty (Some (File 3)))) = None \<and>
   snd (fst (Attr tty None)) = Some (Errno EBADF) \<and> fst (Isatty tty None) = False \<and>
   snd (fst (Attr (tty\<lparr>k_ioctl_errs := [25]\<rparr>) (Some (File 3)))) = Some (Errno 25) \<and>
   fst (Isatty (tty\<lparr>k_ioctl_errs := [25]\<rparr>) (Some (File 3))) = False"
proof -
  have a: "snd (fst (Attr tty (Some (File 3)))) = None"
    by (simp add: Attr_def ioctl_TCGETS_def Syscall_IOCTL_def Fd_def Let_def tty_def)
  have b: "snd (fst (Attr tty None)) = Some (Errno EBADF)"
    by (simp add: Attr_def ioctl_TCGETS_def Syscall_IOCTL_def Fd_def Let_def EBADF_def)
  have c: "snd (fst (Attr (tty\<lparr>k_ioctl_errs := [25]\<rparr>) (Some (File 3)))) = Some (Errno 25)"
    by (simp add: Attr_def ioctl_TCGETS_def Syscall_IOCTL_def Fd_def Let_def)
  show ?thesis
    using a b c Isatty_iff_Attr_succeeds [of tty "Some (File 3)"]
      Isatty_iff_Attr_succeeds [of tty None]
      Isatty_iff_Attr_succeeds [of "tty\<lparr>k_ioctl_errs := [25]\<rparr>" "Some (File 3)"]
    by simp
qed

text \<open>
  C8: when \<open>Attr\<close> succeeds, the value it returns is the kernel's structure with the two
  speed words masked by \<open>CBAUD | CBAUDEX\<close> and no other field changed; the speed words
  of every returned value have no bit outside that mask.
\<close>

theorem Attr_masks_speeds_only:
  "(snd (fst (Attr w file)) = None \<longrightarrow>
      fst (fst (Attr w file)) =
        (k_termios w (Fd file))
          \<lparr>Ispeed := Ispeed (k_termios w (Fd file)) AND (CBAUD OR CBAUDEX),
           Ospeed := Ospeed (k_termios w (Fd file)) AND (CBAUD OR CBAUDEX)\<rparr>) \<and>
   Ispeed (fst (fst (Attr w file))) AND (CBAUD OR CBAUDEX) = Ispeed (fst (fst (Attr w file))) \<and>
   Ospeed (fst (fst (Attr w file))) AND (CBAUD OR CBAUDEX) = Ospeed (fst (fst (Attr w file)))"
proof -
  obtain e w' where sc: "Syscall_IOCTL w (Fd file) TCGETS = (e, w')"
    by (cases "Syscall_IOCTL w (Fd file) TCGETS")
  have kt: "k_termios w' = k_termios w"
    using sc by (auto simp: Syscall_IOCTL_def emit_def split: if_splits list.splits)
  show ?thesis
  proof (cases "e = 0")
    case True
    then show ?thesis
      using sc kt by (simp add: Attr_def ioctl_TCGETS_def Let_def mask_idem)
  next
    case False
    then show ?thesis
      using sc by (simp add: Attr_def ioctl_TCGETS_def Let_def Termios_zero_def)
  qed
qed

theorem Attr_masks_speeds_only_witness:
  "snd (fst (Attr tty (Some (File 3)))) = None \<and>
   Ispeed (k_termios tty 3) = 0xFFFF \<and> Ospeed (k_termios tty 3) = 0x2000D \<and>
   Ispeed (fst (fst (Attr tty (Some (File 3))))) = 0x100F \<and>
   Ospeed (fst (fst (Attr tty (Some (File 3))))) = 0xD \<and>
   Lflag (fst (fst (Attr tty (Some (File 3))))) = 8"
proof -
  have ok: "snd (fst (Attr tty (Some (File 3)))) = None"
    by (simp add: Attr_def ioctl_TCGETS_def Syscall_IOCTL_def Fd_def Let_def tty_def)
  have "fst (fst (Attr tty (Some (File 3)))) =
        (k_termios tty (Fd (Some (File 3))))
          \<lparr>Ispeed := Ispeed (k_termios tty (Fd (Some (File 3)))) AND (CBAUD OR CBAUDEX),
           Ospeed := Ospeed (k_termios tty (Fd (Some (File 3)))) AND (CBAUD OR CBAUDEX)\<rparr>"
    using Attr_masks_speeds_only [of tty "Some (File 3)"] ok by blast
  then show ?thesis
    using ok by (simp add: tty_def Fd_def Termios_zero_def CBAUD_def CBAUDEX_def)
qed

section \<open>Properties of the PTY allocator\<close>

text \<open>
  C5: on a pair, \<open>Close\<close> handles the slave side and then the master side, each whatever
  the other gave: a nil handle counts as that side's failure (\<open>Slave FD nil\<close>,
  \<open>Master FD nil\<close>) without a system call, any other handle is closed. The world
  afterwards is the one after both sides, with the close calls in the trace in the
  order slave, master. The result is nil exactly when both sides gave nil; otherwise it
  is one error whose text names each failed side with that side's message, joined by a
  space, and names no side that closed cleanly.
\<close>

theorem PTY_Close_aggregates:
  "let sr = (case Slave pty of
               None \<Rightarrow> (Some (ErrorString ''Slave FD nil''), w)
             | Some s \<Rightarrow> File_Close w (Some s));
       mr = (case Master pty of
               None \<Rightarrow> (Some (ErrorString ''Master FD nil''), snd sr)
             | Some m \<Rightarrow> File_Close (snd sr) (Some m));
       r = PTY_Close strerror w (Some pty)
   in snd r = snd mr \<and>
      k_trace (snd r) =
        k_trace w @ (case Slave pty of None \<Rightarrow> [] | Some s \<Rightarrow> [EvClose (fd_of s) (fst sr)])
                  @ (case Master pty of None \<Rightarrow> [] | Some m \<Rightarrow> [EvClose (fd_of m) (fst mr)]) \<and>
      (fst r = None \<longleftrightarrow> fst sr = None \<and> fst mr = None) \<and>
      (\<forall>es. fst sr = Some es \<and> fst mr = None \<longrightarrow>
         fst r = Some (ErrorString (''Slave: '' @ Error strerror es))) \<and>
      (\<forall>em. fst sr = None \<and> fst mr = Some em \<longrightarrow>
         fst r = Some (ErrorString (''Master: '' @ Error strerror em))) \<and>
      (\<forall>es em. fst sr = Some es \<and> fst mr = Some em \<longrightarrow>
         fst r = Some (ErrorString
           (''Slave: '' @ Error strerror es @ '' '' @ ''Master: '' @ Error strerror em)))"
proof -
  obtain se w1 where sr: "(case Slave pty of
               None \<Rightarrow> (Some (ErrorString ''Slave FD nil''), w)
             | Some s \<Rightarrow> File_Close w (Some s)) = (se, w1)"
    by (cases "case Slave pty of
               None \<Rightarrow> (Some (ErrorString ''Slave FD nil''), w)
             | Some s \<Rightarrow> File_Close w (Some s)")
  obtain me w2 where mr: "(case Master pty of
               None \<Rightarrow> (Some (ErrorString ''Master FD nil''), w1)
             | Some m \<Rightarrow> File_Close w1 (Some m)) = (me, w2)"
    by (cases "case Master pty of
               None \<Rightarrow> (Some (ErrorString ''Master FD nil''), w1)
             | Some m \<Rightarrow> File_Close w1 (Some m)")
  have s1: "(if Slave pty \<noteq> None then File_Close w (Slave pty)
             else (Some (ErrorString ''Slave FD nil''), w)) = (se, w1)"
    using sr by (cases "Slave pty") simp_all
  have m1: "(if Master pty \<noteq> None then File_Close w1 (Master pty)
             else (Some (ErrorString ''Master FD nil''), w1)) = (me, w2)"
    using mr by (cases "Master pty") simp_all
  have t1: "k_trace w1 =
      k_trace w @ (case Slave pty of None \<Rightarrow> [] | Some s \<Rightarrow> [EvClose (fd_of s) se])"
    using sr by (cases "Slave pty") (auto dest: File_Close_trace)
  have t2: "k_trace w2 =
      k_trace w1 @ (case Master pty of None \<Rightarrow> [] | Some m \<Rightarrow> [EvClose (fd_of m) me])"
    using mr by (cases "Master pty") (auto dest: File_Close_trace)
  have r: "PTY_Close strerror w (Some pty) =
      (case (se, me) of
         (None, None) \<Rightarrow> None
       | (Some es, None) \<Rightarrow> Some (ErrorString (''Slave: '' @ Error strerror es))
       | (None, Some em) \<Rightarrow> Some (ErrorString (''Master: '' @ Error strerror em))
       | (Some es, Some em) \<Rightarrow> Some (ErrorString
           (''Slave: '' @ Error strerror es @ '' '' @ ''Master: '' @ Error strerror em)), w2)"
    using s1 m1 by (simp add: PTY_Close_def Let_def split: option.splits)
  show ?thesis
    using sr mr r t1 t2 by (auto simp: Let_def split: option.splits)
qed

theorem PTY_Close_aggregates_witness:
  "PTY_Close (\<lambda>_. ''errno'')
      (tty\<lparr>k_close_errs := [Some (ErrorString ''close /dev/ttys003: bad file descriptor'')]\<rparr>)
      (Some pty_pair) =
     (Some (ErrorString ''Slave: close /dev/ttys003: bad file descriptor''),
      tty\<lparr>k_close_errs := [],
          k_trace := [EvClose 6 (Some (ErrorString ''close /dev/ttys003: bad file descriptor'')),
                      EvClose 5 None]\<rparr>) \<and>
   fst (PTY_Close (\<lambda>_. ''errno'') tty (Some pty_pair)) = None \<and>
   fst (PTY_Close (\<lambda>_. ''errno'') tty (Some \<lparr>Master = Some (File 5), Slave = None\<rparr>)) =
     Some (ErrorString ''Slave: Slave FD nil'')"
proof -
  note a = PTY_Close_aggregates [where pty = pty_pair
      and w = "tty\<lparr>k_close_errs := [Some (ErrorString ''close /dev/ttys003: bad file descriptor'')]\<rparr>"
      and strerror = "\<lambda>_. ''errno''"]
  note b = PTY_Close_aggregates [where pty = pty_pair and w = tty and strerror = "\<lambda>_. ''errno''"]
  note c = PTY_Close_aggregates [where pty = "\<lparr>Master = Some (File 5), Slave = None\<rparr>" and w = tty
      and strerror = "\<lambda>_. ''errno''"]
  have 1: "PTY_Close (\<lambda>_. ''errno'')
      (tty\<lparr>k_close_errs := [Some (ErrorString ''close /dev/ttys003: bad file descriptor'')]\<rparr>)
      (Some pty_pair) =
     (Some (ErrorString ''Slave: close /dev/ttys003: bad file descriptor''),
      tty\<lparr>k_close_errs := [],
          k_trace := [EvClose 6 (Some (ErrorString ''close /dev/ttys003: bad file descriptor'')),
                      EvClose 5 None]\<rparr>)"
    using a by (simp add: Let_def pty_pair_def File_Close_def emit_def tty_def prod_eq_iff)
  have 2: "fst (PTY_Close (\<lambda>_. ''errno'') tty (Some pty_pair)) = None"
    using b by (simp add: Let_def pty_pair_def File_Close_def emit_def tty_def)
  have 3: "fst (PTY_Close (\<lambda>_. ''errno'') tty (Some \<lparr>Master = Some (File 5), Slave = None\<rparr>)) =
     Some (ErrorString ''Slave: Slave FD nil'')"
    using c by (simp add: Let_def File_Close_def emit_def tty_def)
  show ?thesis using 1 2 3 by simp
qed

text \<open>
  C6: \<open>OpenPTY\<close> opens \<open>/dev/ptmx\<close>, asks the master for the slave's name, grants, unlocks,
  and opens the slave under the name read up to the first NUL of the 128-byte name
  buffer, in this order and with nothing else: the trace of the call is these system
  calls up to and including the first that fails. The error returned is the one of the
  step that failed (a name without NUL within the buffer is an error of its own), no
  pair is returned then, and no close call appears in the trace: the master stays open.
  When every step succeeds the pair of the two opened files is returned.
\<close>

theorem OpenPTY_sequence:
  "let q = k_ioctl_errs w;
       buf = copyout (replicate 128 0) (k_gname w mfd);
       sname = string_of_bytes (takeWhile (\<lambda>c. c \<noteq> 0) buf);
       r = fst (OpenPTY w);
       tr = k_trace (snd (OpenPTY w));
       o1 = EvOpen ''/dev/ptmx'' (Inr mfd);
       i1 = EvIoctl mfd TIOCPTYGNAME (ioctl_status q 0);
       i2 = EvIoctl mfd TIOCPTYGRANT (ioctl_status q 1);
       i3 = EvIoctl mfd TIOCPTYUNLK (ioctl_status q 2)
   in (\<forall>e. k_open w ''/dev/ptmx'' = Inl e \<longrightarrow>
         r = (None, Some e) \<and> tr = k_trace w @ [EvOpen ''/dev/ptmx'' (Inl e)]) \<and>
      (k_open w ''/dev/ptmx'' = Inr mfd \<and> mfd \<noteq> - 1 \<longrightarrow>
         (ioctl_status q 0 \<noteq> 0 \<longrightarrow>
            r = (None, Some (Errno (ioctl_status q 0))) \<and> tr = k_trace w @ [o1, i1]) \<and>
         (ioctl_status q 0 = 0 \<and> 0 \<notin> set buf \<longrightarrow>
            r = (None, Some (ErrorString ''TIOCPTYGNAME string not NUL-terminated'')) \<and>
            tr = k_trace w @ [o1, i1]) \<and>
         (ioctl_status q 0 = 0 \<and> 0 \<in> set buf \<and> ioctl_status q 1 \<noteq> 0 \<longrightarrow>
            r = (None, Some (Errno (ioctl_status q 1))) \<and> tr = k_trace w @ [o1, i1, i2]) \<and>
         (ioctl_status q 0 = 0 \<and> 0 \<in> set buf \<and> ioctl_status q 1 = 0 \<and> ioctl_status q 2 \<noteq> 0 \<longrightarrow>
            r = (None, Some (Errno (ioctl_status q 2))) \<and> tr = k_trace w @ [o1, i1, i2, i3]) \<and>
         (ioctl_status q 0 = 0 \<and> 0 \<in> set buf \<and> ioctl_status q 1 = 0 \<and> ioctl_status q 2 = 0 \<longrightarrow>
            (\<forall>e. k_open w sname = Inl e \<longrightarrow>
               r = (None, Some e) \<and> tr = k_trace w @ [o1, i1, i2, i3, EvOpen sname (Inl e)]) \<and>
            (\<forall>sfd. k_open w sname = Inr sfd \<longrightarrow>
               r = (Some \<lparr>Master = Some (File mfd), Slave = Some (File sfd)\<rparr>, None) \<and>
               tr = k_trace w @ [o1, i1, i2, i3, EvOpen sname (Inr sfd)])))"
proof -
  have a: "\<And>e. k_open w ''/dev/ptmx'' = Inl e \<Longrightarrow>
      OpenPTY w = ((None, Some e), emit (EvOpen ''/dev/ptmx'' (Inl e)) w)"
    by (simp add: OpenPTY_def OpenFile_def)
  show ?thesis
  proof (cases "k_open w ''/dev/ptmx'' = Inr mfd \<and> mfd \<noteq> - 1")
    case False
    then show ?thesis
      using a by (auto simp: Let_def emit_def)
  next
    case True
    then have "k_open w ''/dev/ptmx'' = Inr mfd" "mfd \<noteq> - 1" by simp_all
    note u = OpenPTY_unfold [OF this]
    show ?thesis
      using True unfolding u by (simp add: Let_def emit_def)
  qed
qed

theorem OpenPTY_sequence_witness:
  "k_open pty_host ''/dev/ptmx'' = Inr 5 \<and>
   fst (OpenPTY pty_host) = (Some \<lparr>Master = Some (File 5), Slave = Some (File 6)\<rparr>, None) \<and>
   k_trace (snd (OpenPTY pty_host)) =
     [EvOpen ''/dev/ptmx'' (Inr 5), EvIoctl 5 TIOCPTYGNAME 0, EvIoctl 5 TIOCPTYGRANT 0,
      EvIoctl 5 TIOCPTYUNLK 0, EvOpen ''/dev/ttys003'' (Inr 6)] \<and>
   fst (OpenPTY (pty_host\<lparr>k_ioctl_errs := [0, 13]\<rparr>)) = (None, Some (Errno 13)) \<and>
   k_trace (snd (OpenPTY (pty_host\<lparr>k_ioctl_errs := [0, 13]\<rparr>))) =
     [EvOpen ''/dev/ptmx'' (Inr 5), EvIoctl 5 TIOCPTYGNAME 0, EvIoctl 5 TIOCPTYGRANT 13]"
proof -
  let ?name = "[0x2F, 0x64, 0x65, 0x76, 0x2F, 0x74, 0x74, 0x79, 0x73, 0x30, 0x30, 0x33] :: byte list"
  have g: "k_gname pty_host 5 = ?name @ 0 # []"
    and g': "k_gname (pty_host\<lparr>k_ioctl_errs := [0, 13]\<rparr>) 5 = ?name @ 0 # []"
    by (simp_all add: pty_host_def)
  have nb: "0 \<in> set (copyout (replicate 128 0) (k_gname pty_host 5)) \<and>
      takeWhile (\<lambda>c. c \<noteq> 0) (copyout (replicate 128 0) (k_gname pty_host 5)) = ?name"
    by (rule copyout_terminated [OF g]) simp_all
  have nb': "0 \<in> set (copyout (replicate 128 0) (k_gname (pty_host\<lparr>k_ioctl_errs := [0, 13]\<rparr>) 5)) \<and>
      takeWhile (\<lambda>c. c \<noteq> 0) (copyout (replicate 128 0) (k_gname (pty_host\<lparr>k_ioctl_errs := [0, 13]\<rparr>) 5)) = ?name"
    by (rule copyout_terminated [OF g']) simp_all
  have o: "k_open pty_host ''/dev/ptmx'' = Inr 5" "k_open pty_host ''/dev/ttys003'' = Inr 6"
    "k_ioctl_errs pty_host = []" "k_trace pty_host = []"
    by (simp_all add: pty_host_def tty_def)
  have o': "k_open (pty_host\<lparr>k_ioctl_errs := [0, 13]\<rparr>) ''/dev/ptmx'' = Inr 5"
    "k_trace (pty_host\<lparr>k_ioctl_errs := [0, 13]\<rparr>) = []"
    by (simp_all add: pty_host_def tty_def)
  have 1: "fst (OpenPTY pty_host) = (Some \<lparr>Master = Some (File 5), Slave = Some (File 6)\<rparr>, None) \<and>
     k_trace (snd (OpenPTY pty_host)) =
     [EvOpen ''/dev/ptmx'' (Inr 5), EvIoctl 5 TIOCPTYGNAME 0, EvIoctl 5 TIOCPTYGRANT 0,
      EvIoctl 5 TIOCPTYUNLK 0, EvOpen ''/dev/ttys003'' (Inr 6)]"
    using OpenPTY_sequence [where w = pty_host and mfd = 5]
    unfolding Let_def by (simp add: nb o ttys003 ioctl_status_def)
  have 2: "fst (OpenPTY (pty_host\<lparr>k_ioctl_errs := [0, 13]\<rparr>)) = (None, Some (Errno 13)) \<and>
     k_trace (snd (OpenPTY (pty_host\<lparr>k_ioctl_errs := [0, 13]\<rparr>))) =
     [EvOpen ''/dev/ptmx'' (Inr 5), EvIoctl 5 TIOCPTYGNAME 0, EvIoctl 5 TIOCPTYGRANT 13]"
    using OpenPTY_sequence [where w = "pty_host\<lparr>k_ioctl_errs := [0, 13]\<rparr>" and mfd = 5]
    unfolding Let_def by (simp add: nb nb' o o' ioctl_status_def)
  show ?thesis using 1 2 o by simp
qed

text \<open>
  C9: whenever \<open>PTSNumber\<close> returns the number \<open>N\<close> without error, \<open>PTSName\<close> on the same
  pair returns \<open>/dev/pts/\<close> followed by the decimal numeral of \<open>N\<close>: from the same state
  it succeeds with that string, and called afterwards, whenever it succeeds, it gives
  that string. The number is not stored in the pair: each call puts the request
  \<open>TIOCGPTN\<close> to the master's descriptor, and \<open>N\<close> is what the kernel holds for it at that
  moment.
\<close>

theorem PTSName_is_decimal_of_PTSNumber:
  assumes "PTSNumber w p = (Return (N, None), w')"
  shows "PTSName w p = (Return (''/dev/pts/'' @ dec_nat (unat N), None), w') \<and>
         (\<forall>s w''. PTSName w' p = (Return (s, None), w'') \<longrightarrow>
            s = ''/dev/pts/'' @ dec_nat (unat N)) \<and>
         dec_value (dec_nat (unat N)) = unat N \<and>
         (\<exists>pty. p = Some pty \<and>
            N = ucast (k_ptn w (Fd (Master pty))) \<and>
            k_trace w' = k_trace w @ [EvIoctl (Fd (Master pty)) TIOCGPTN 0])"
proof -
  obtain pty where p: "p = Some pty"
    using assms by (cases p) (simp_all add: PTSNumber_def)
  obtain e w1 where sc: "Syscall_IOCTL w (Fd (Master pty)) TIOCGPTN = (e, w1)"
    by (cases "Syscall_IOCTL w (Fd (Master pty)) TIOCGPTN")
  have e: "e = 0" and w1: "w1 = w'" and N: "N = ucast (k_ptn w1 (Fd (Master pty)))"
    using assms p sc by (auto simp: PTSNumber_Some split: if_splits)
  note fr = Syscall_IOCTL_world [OF sc]
  have "Itoa (sint N) = dec_nat (unat N)"
    by (simp add: N sint_ucast_32_64 unat_ucast_32_64 Itoa_def)
  then have same: "PTSName w p = (Return (''/dev/pts/'' @ dec_nat (unat N), None), w')"
    using assms by (simp add: PTSName_def)
  have later: "s = ''/dev/pts/'' @ dec_nat (unat N)"
    if nm: "PTSName w' p = (Return (s, None), w'')" for s w''
  proof -
    obtain e2 w2 where sc2: "Syscall_IOCTL w' (Fd (Master pty)) TIOCGPTN = (e2, w2)"
      by (cases "Syscall_IOCTL w' (Fd (Master pty)) TIOCGPTN")
    have kp: "k_ptn w2 = k_ptn w'"
      using Syscall_IOCTL_world [OF sc2] by simp
    have "s = ''/dev/pts/'' @ Itoa (sint N)"
      using nm p sc2 kp N w1
      by (auto simp: PTSName_def PTSNumber_Some split: if_splits)
    then show ?thesis
      by (simp add: N sint_ucast_32_64 unat_ucast_32_64 Itoa_def)
  qed
  show ?thesis
    using p N fr e w1 same later by (simp add: dec_value_dec_nat)
qed

theorem PTSName_is_decimal_of_PTSNumber_witness:
  "PTSNumber (tty\<lparr>k_ptn := (\<lambda>_. 42)\<rparr>) (Some pty_pair) =
     (Return (42, None), emit (EvIoctl 5 TIOCGPTN 0) (tty\<lparr>k_ptn := (\<lambda>_. 42)\<rparr>)) \<and>
   PTSName (tty\<lparr>k_ptn := (\<lambda>_. 42)\<rparr>) (Some pty_pair) =
     (Return (''/dev/pts/42'', None), emit (EvIoctl 5 TIOCGPTN 0) (tty\<lparr>k_ptn := (\<lambda>_. 42)\<rparr>))"
proof -
  have n: "PTSNumber (tty\<lparr>k_ptn := (\<lambda>_. 42)\<rparr>) (Some pty_pair) =
     (Return (42, None), emit (EvIoctl 5 TIOCGPTN 0) (tty\<lparr>k_ptn := (\<lambda>_. 42)\<rparr>))"
    by (simp add: PTSNumber_Some Syscall_IOCTL_def Fd_def pty_pair_def tty_def emit_def)
  show ?thesis
    using PTSName_is_decimal_of_PTSNumber [OF n] n by (simp add: dec_nat.simps)
qed

text \<open>
  C10: \<open>Close\<close> on a nil pair returns the error \<open>no PTY\<close> and touches nothing.
  \<open>PTSNumber\<close> and \<open>PTSName\<close> have no such guard, and on a nil pair they panic (a nil
  dereference); on a pair whose master handle is not nil they return.
\<close>

theorem nil_pair_guard:
  "PTY_Close strerror w None = (Some (ErrorString ''no PTY''), w) \<and>
   fst (PTSNumber w None) = Panic \<and>
   fst (PTSName w None) = Panic \<and>
   (Master pty \<noteq> None \<longrightarrow>
      fst (PTSNumber w (Some pty)) \<noteq> Panic \<and> fst (PTSName w (Some pty)) \<noteq> Panic)"
  by (simp add: PTY_Close_def PTSName_def PTSNumber_Some PTSNumber_def
      split: prod.splits outcome.splits option.splits)

theorem nil_pair_guard_witness:
  "Master pty_pair \<noteq> None \<and>
   fst (PTSNumber tty (Some pty_pair)) = Return (0, None) \<and>
   fst (PTSName tty (Some pty_pair)) = Return (''/dev/pts/0'', None) \<and>
   fst (PTSNumber tty None) = Panic"
proof -
  have "fst (PTSNumber tty (Some pty_pair)) \<noteq> Panic \<and> fst (PTSName tty (Some pty_pair)) \<noteq> Panic"
    using nil_pair_guard [where strerror = "\<lambda>_. []" and w = tty and pty = pty_pair]
    by (simp add: pty_pair_def)
  moreover have "fst (PTSNumber tty None) = Panic"
    using nil_pair_guard [where strerror = "\<lambda>_. []" and w = tty and pty = pty_pair] by simp
  ultimately show ?thesis
    by (simp add: PTSName_def PTSNumber_Some Syscall_IOCTL_def Fd_def pty_pair_def tty_def
        emit_def Itoa_def dec_nat.simps)
qed

end
